theory Spec2Isabelle
  imports Main "HOL-Library.Sublist"
begin

section \<open>Engine proxy (package engine)\<close>

subsection \<open>HTTP requests and headers\<close>

text \<open>
  Go's \<^verbatim>\<open>http.Header\<close> is a \<^verbatim>\<open>map[string][]string\<close>. \<^verbatim>\<open>Get\<close> returns the first
  value stored under the key, or the empty string; \<^verbatim>\<open>Set\<close> replaces the values by one
  value; \<^verbatim>\<open>Add\<close> appends a value; \<^verbatim>\<open>Del\<close> removes the key. The four header names
  the engine uses are already in canonical MIME form, so the canonicalisation of the key is
  the identity on them.
\<close>

type_synonym Header = "string \<Rightarrow> string list option"

definition Header_Get :: "Header \<Rightarrow> string \<Rightarrow> string" where
  "Header_Get h k = (case h k of None \<Rightarrow> [] | Some vs \<Rightarrow> (case vs of [] \<Rightarrow> [] | v # _ \<Rightarrow> v))"

definition Header_Values :: "Header \<Rightarrow> string \<Rightarrow> string list" where
  "Header_Values h k = (case h k of None \<Rightarrow> [] | Some vs \<Rightarrow> vs)"

definition Header_Set :: "Header \<Rightarrow> string \<Rightarrow> string \<Rightarrow> Header" where
  "Header_Set h k v = h(k \<mapsto> [v])"

definition Header_Add :: "Header \<Rightarrow> string \<Rightarrow> string \<Rightarrow> Header" where
  "Header_Add h k v = h(k \<mapsto> Header_Values h k @ [v])"

definition Header_Del :: "Header \<Rightarrow> string \<Rightarrow> Header" where
  "Header_Del h k = h(k := None)"

text \<open>
  The part of \<^verbatim>\<open>*http.Request\<close> the engine reads and writes: the header, the path,
  the raw (encoded) path and the raw query of the URL, and the value stored in the request
  context under \<^verbatim>\<open>HttpContextKeyEmail{}\<close> (absent until the middleware stores it). The
  raw path is empty when the default encoding of the path is the one that was sent.
\<close>

record Request =
  Header :: Header
  URL_Path :: string
  URL_RawPath :: string
  URL_RawQuery :: string
  ctx_email :: "string option"

text \<open>
  What a handler does with the response writer: it answers with \<^verbatim>\<open>http.Error(w, msg, code)\<close>,
  or it hands the request to the reverse proxy built by
  \<^verbatim>\<open>httputil.NewSingleHostReverseProxy(remote)\<close>.
\<close>

datatype Response = HttpError string nat | ReverseProxy Request

definition StatusUnauthorized :: nat where
  "StatusUnauthorized = 401"

definition StatusNotFound :: nat where
  "StatusNotFound = 404"

text \<open>\<^verbatim>\<open>strings.HasPrefix\<close>.\<close>

definition strings_HasPrefix :: "string \<Rightarrow> string \<Rightarrow> bool" where
  "strings_HasPrefix s p = (take (length p) s = p)"

text \<open>
  \<^verbatim>\<open>strings.Replace(s, old, "", -1)\<close>: every non-overlapping occurrence of \<^verbatim>\<open>old\<close>, found
  from left to right, is removed. With an empty \<^verbatim>\<open>old\<close> Go inserts the (empty) replacement
  between the characters, which leaves \<^verbatim>\<open>s\<close> as it is.
\<close>

function strings_Replace :: "string \<Rightarrow> string \<Rightarrow> string" where
  "strings_Replace [] old = []"
| "strings_Replace (c # cs) old =
     (if old \<noteq> [] \<and> strings_HasPrefix (c # cs) old
      then strings_Replace (drop (length old) (c # cs)) old
      else c # strings_Replace cs old)"
  by pat_completeness auto
termination
  by (relation "measure (\<lambda>(s, old). length s)") auto

text \<open>\<^verbatim>\<open>strings.TrimPrefix\<close>.\<close>

definition strings_TrimPrefix :: "string \<Rightarrow> string \<Rightarrow> string" where
  "strings_TrimPrefix s p = (if strings_HasPrefix s p then drop (length p) s else s)"

text \<open>
  \<^verbatim>\<open>http.StripPrefix(prefix, h)\<close>: the prefix is trimmed from the path and from the raw
  path; when the path became shorter, and the raw path is empty or became shorter too, the
  request is served by \<^verbatim>\<open>h\<close> with the trimmed paths; any other request is answered with
  \<^verbatim>\<open>http.NotFound\<close>.
\<close>

definition StripPrefix :: "string \<Rightarrow> (Request \<Rightarrow> Response) \<Rightarrow> Request \<Rightarrow> Response" where
  "StripPrefix pfx h r =
     (if pfx = [] then h r
      else (let p = strings_TrimPrefix (URL_Path r) pfx;
                rp = strings_TrimPrefix (URL_RawPath r) pfx
            in if length p < length (URL_Path r) \<and>
                  (URL_RawPath r = [] \<or> length rp < length (URL_RawPath r))
               then h (r\<lparr>URL_Path := p, URL_RawPath := rp\<rparr>)
               else HttpError ''404 page not found'' StatusNotFound))"

subsection \<open>The JOSE library, as the middleware uses it\<close>

text \<open>
  The engine verifies tokens with \<^verbatim>\<open>gopkg.in/square/go-jose.v2\<close>, a dependency that is not
  part of the repository. Its three entry points are parameters of the model:
  \<^item> \<^verbatim>\<open>jwt.ParseSigned(raw)\<close>: the parsed token, or \<open>None\<close> for an error;
  \<^item> \<^verbatim>\<open>tok.Claims(key, &cl, &out)\<close>: verifies the signature with the key (a pointer, so
    possibly nil) and decodes the payload into the registered claims and into a map of all
    claims; \<open>None\<close> for an error;
  \<^item> \<^verbatim>\<open>cl.Validate(jwt.Expected{Issuer: i, Time: t})\<close>: \<open>None\<close> when the claims are
    valid, otherwise the error.
\<close>

datatype JSONValue = JString string | JNumber int | JBool bool | JNull

datatype jwt_error =
    ErrInvalidIssuer | ErrInvalidSubject | ErrInvalidAudience | ErrInvalidID
  | ErrNotValidYet | ErrExpired | ErrIssuedInTheFuture

record ('tok, 'key, 'cl) jose =
  ParseSigned :: "string \<Rightarrow> 'tok option"
  Claims :: "'tok \<Rightarrow> 'key option \<Rightarrow> ('cl \<times> (string \<Rightarrow> JSONValue option)) option"
  Validate :: "'cl \<Rightarrow> string \<Rightarrow> int \<Rightarrow> jwt_error option"

subsection \<open>jwkCache.getjwk\<close>

datatype engine_error =
    GetError | ReadAllError | UnmarshalError | NoJwksProvided | CouldNotAppendCA

text \<open>
  Times are nanoseconds. \<open>lastChecked\<close> is \<open>None\<close> for the zero \<^verbatim>\<open>time.Time{}\<close> the
  cache starts with; \<open>key\<close> is the cached pointer, nil at the start.
\<close>

record 'key jwkCache =
  key :: "'key option"
  lastChecked :: "int option"

definition JWKCacheRefresh :: int where
  "JWKCacheRefresh = 5 * 60 * 1000000000"

text \<open>
  \<open>fetched\<close> is the outcome of the three steps \<^verbatim>\<open>client.Get\<close>, \<^verbatim>\<open>ioutil.ReadAll\<close> and
  \<^verbatim>\<open>json.Unmarshal\<close> of \<^verbatim>\<open>/.well-known/jwks.json\<close>: the error of the first step that
  fails, or the decoded \<^verbatim>\<open>response.Keys\<close>. It is consulted only when the cache is stale.
  The result is the returned pair (error, or key pointer) and the cache afterwards.
\<close>

definition getjwk ::
  "int \<Rightarrow> engine_error + 'key list \<Rightarrow> 'key jwkCache \<Rightarrow> (engine_error + 'key option) \<times> 'key jwkCache" where
  "getjwk now fetched j =
     (if (case lastChecked j of None \<Rightarrow> False | Some t \<Rightarrow> now < t + JWKCacheRefresh)
      then (Inr (key j), j)
      else (case fetched of
              Inl err \<Rightarrow> (Inl err, j)
            | Inr keys \<Rightarrow>
                (case keys of
                   [] \<Rightarrow> (Inl NoJwksProvided, j)
                 | k0 # _ \<Rightarrow> (Inr (Some k0), j\<lparr>key := Some k0, lastChecked := Some now\<rparr>))))"

subsection \<open>jwtMiddleware\<close>

text \<open>
  \<open>getjwk\<close> is the \<^verbatim>\<open>GetJWKFunc\<close> closure: it is called only once the token has parsed,
  and it may change the state \<open>s\<close> it closes over. The debug log lines do not change the
  response and are left out.
\<close>

definition jwtMiddleware ::
  "('tok, 'key, 'cl) jose \<Rightarrow> int \<Rightarrow> ('s \<Rightarrow> (engine_error + 'key option) \<times> 's) \<Rightarrow>
   (Request \<Rightarrow> Response) \<Rightarrow> Request \<Rightarrow> 's \<Rightarrow> Response \<times> 's" where
  "jwtMiddleware lib now getjwkf next r s =
     (let authorization = Header_Get (Header r) ''X-Infra-Authorization'';
          raw = strings_Replace authorization ''Bearer ''
      in if raw = [] then (HttpError ''unauthorized'' StatusUnauthorized, s)
         else (case ParseSigned lib raw of
                 None \<Rightarrow> (HttpError ''unauthorized'' StatusUnauthorized, s)
               | Some tok \<Rightarrow>
                   (case getjwkf s of
                      (Inl err, s') \<Rightarrow> (HttpError ''unauthorized'' StatusUnauthorized, s')
                    | (Inr k, s') \<Rightarrow>
                        (case Claims lib tok k of
                           None \<Rightarrow> (HttpError ''unauthorized'' StatusUnauthorized, s')
                         | Some (cl, out) \<Rightarrow>
                             (let err = Validate lib cl ''infra'' now
                              in if err = Some ErrExpired
                                 then (HttpError ''expired'' StatusUnauthorized, s')
                                 else if err \<noteq> None
                                 then (HttpError ''unauthorized'' StatusUnauthorized, s')
                                 else (case out ''email'' of
                                         Some (JString email) \<Rightarrow>
                                           (next (r\<lparr>ctx_email := Some email\<rparr>), s')
                                       | _ \<Rightarrow>
                                           (HttpError ''unauthorized'' StatusUnauthorized, s')))))))"

subsection \<open>proxyHandler\<close>

text \<open>The handler function that \<^verbatim>\<open>proxyHandler\<close> returns.\<close>

definition proxyHandler_func :: "string \<Rightarrow> Request \<Rightarrow> Response" where
  "proxyHandler_func bearerToken r =
     (let r1 = (if Header_Get (Header r) ''X-Infra-Query'' \<noteq> []
                then r\<lparr>URL_RawQuery := Header_Get (Header r) ''X-Infra-Query''\<rparr>
                else r)
      in case ctx_email r1 of
           None \<Rightarrow> HttpError ''unauthorized'' StatusUnauthorized
         | Some email \<Rightarrow>
             (let h1 = Header_Del (Header r1) ''X-Infra-Authorization'';
                  h2 = Header_Set h1 ''Impersonate-User'' email;
                  h3 = Header_Add h2 ''Authorization'' (''Bearer '' @ bearerToken)
              in StripPrefix ''/proxy'' ReverseProxy (r1\<lparr>Header := h3\<rparr>)))"

text \<open>
  \<open>ok\<close> is the result of \<^verbatim>\<open>caCertPool.AppendCertsFromPEM(ca)\<close>.
\<close>

definition proxyHandler :: "bool \<Rightarrow> string \<Rightarrow> engine_error + (Request \<Rightarrow> Response)" where
  "proxyHandler ok bearerToken =
     (if \<not> ok then Inl CouldNotAppendCA else Inr (proxyHandler_func bearerToken))"

text \<open>
  The route \<^verbatim>\<open>mux.Handle("/proxy/", jwtMiddleware(cache.getjwk, ph))\<close> that \<^verbatim>\<open>Run\<close>
  installs.
\<close>

definition Run_proxy ::
  "('tok, 'key, 'cl) jose \<Rightarrow> int \<Rightarrow> engine_error + 'key list \<Rightarrow> string \<Rightarrow>
   Request \<Rightarrow> 'key jwkCache \<Rightarrow> Response \<times> 'key jwkCache" where
  "Run_proxy lib now fetched bearerToken =
     jwtMiddleware lib now (getjwk now fetched) (proxyHandler_func bearerToken)"

section \<open>Engine reconciler (the timer callback of Run)\<close>

text \<open>
  The messages of package \<^verbatim>\<open>v1\<close> that the callback reads, with the fields it reads.
\<close>

record v1_User =
  Email :: string

record v1_Role =
  Name :: string
  Users :: "v1_User list"

record ListRolesResponse =
  Roles :: "v1_Role list"

record CreateDestinationResponse =
  Id :: string

record CreateDestinationRequest_Kubernetes =
  Ca :: string
  Endpoint :: string
  Namespace :: string
  SaToken :: string

record CreateDestinationRequest =
  req_Name :: string
  Kubernetes :: CreateDestinationRequest_Kubernetes

record RoleBinding =
  Role :: string
  rb_Users :: "string list"

text \<open>
  What the callback calls: the cluster client \<^verbatim>\<open>k8s\<close> and the gRPC client of the
  registry. A call of the cluster client returns an error or a value. A gRPC call returns
  Go's pair of a response pointer and an error; the generated client returns a nil pointer
  together with every error.
\<close>

record tick_env =
  k8s_CA :: "string + string"
  k8s_Endpoint :: "string + string"
  k8s_Namespace :: "string + string"
  k8s_Name :: "string + string"
  k8s_SaToken :: "string + string"
  client_CreateDestination ::
    "CreateDestinationRequest \<Rightarrow> CreateDestinationResponse option \<times> string option"
  client_ListRoles :: "string \<Rightarrow> ListRolesResponse option \<times> string option"
  k8s_UpdateRoles :: "RoleBinding list \<Rightarrow> string option"

text \<open>
  How a tick ends: the callback returns, or it panics on a nil pointer; either way with the
  lines it has printed with \<^verbatim>\<open>fmt.Println\<close>, and with the role bindings it has applied
  (if it came that far).
\<close>

datatype tick_outcome =
    Returned "string list" "RoleBinding list option"
  | Panic_nil_dereference "string list"

text \<open>The two nested loops that turn roles into role bindings.\<close>

definition role_bindings :: "v1_Role list \<Rightarrow> RoleBinding list" where
  "role_bindings rs = map (\<lambda>r. \<lparr>Role = Name r, rb_Users = map Email (Users r)\<rparr>) rs"

definition tick :: "string \<Rightarrow> string \<Rightarrow> tick_env \<Rightarrow> tick_outcome" where
  "tick options_Endpoint options_Name env =
     (case k8s_CA env of
        Inl err \<Rightarrow> Returned [err] None
      | Inr ca \<Rightarrow>
     (case (if options_Endpoint = [] then k8s_Endpoint env else Inr options_Endpoint) of
        Inl err \<Rightarrow> Returned [err] None
      | Inr endpoint \<Rightarrow>
     (case k8s_Namespace env of
        Inl err \<Rightarrow> Returned [err] None
      | Inr namespace \<Rightarrow>
     (case (if options_Name = [] then k8s_Name env else Inr options_Name) of
        Inl err \<Rightarrow> Returned [err] None
      | Inr name \<Rightarrow>
     (case k8s_SaToken env of
        Inl err \<Rightarrow> Returned [err] None
      | Inr saToken \<Rightarrow>
     (case client_CreateDestination env
             \<lparr>req_Name = name,
              Kubernetes = \<lparr>Ca = ca, Endpoint = endpoint, Namespace = namespace,
                            SaToken = saToken\<rparr>\<rparr> of
        (_, Some err) \<Rightarrow> Returned [err] None
      | (None, None) \<Rightarrow> Panic_nil_dereference []
      | (Some res, None) \<Rightarrow>
     (case client_ListRoles env (Id res) of
        (rolesRes, err) \<Rightarrow>
     (let printed = (case err of None \<Rightarrow> [] | Some e \<Rightarrow> [e])
      in case rolesRes of
           None \<Rightarrow> Panic_nil_dereference printed
         | Some rr \<Rightarrow>
             (let rbs = role_bindings (Roles rr)
              in case k8s_UpdateRoles env rbs of
                   Some e \<Rightarrow> Returned (printed @ [e]) None
                 | None \<Rightarrow> Returned printed (Some rbs))))))))))"

section \<open>Store (package data)\<close>

subsection \<open>Rows\<close>

text \<open>
  \<^verbatim>\<open>uid.ID\<close> is a 64-bit integer and \<^verbatim>\<open>uid.PolymorphicID\<close> a string. Times are integers;
  the nullable \<^verbatim>\<open>deleted_at\<close> is an option. A grant row has the columns of
  \<^verbatim>\<open>grantsTable.Columns\<close> and \<^verbatim>\<open>update_index\<close>; a public key row has the columns of
  \<^verbatim>\<open>userPublicKeysTable.Columns\<close>, which has no \<^verbatim>\<open>organization_id\<close>.
\<close>

type_synonym uid = int

record Grant =
  ID :: uid
  CreatedAt :: int
  UpdatedAt :: int
  DeletedAt :: "int option"
  OrganizationID :: uid
  Subject :: string
  Privilege :: string
  Resource :: string
  CreatedBy :: uid
  UpdateIndex :: int

record UserPublicKey =
  k_ID :: uid
  k_CreatedAt :: int
  k_UpdatedAt :: int
  k_DeletedAt :: "int option"
  k_UserID :: uid
  k_Name :: string
  k_PublicKey :: string
  k_KeyType :: string
  k_ExpiresAt :: int
  k_Fingerprint :: string

subsection \<open>The database behind a transaction\<close>

text \<open>
  The queries are sent to PostgreSQL, which is not part of the repository. The model keeps
  what the functions below depend on: the two tables (rows in storage order), the sequence
  \<^verbatim>\<open>seq_update_index\<close>, whether the connection is inside a transaction block and whether
  that block has failed, and the stack of savepoints (newest first) with the grants table
  as it was when each was set. \<open>tx_OrganizationID\<close> is \<^verbatim>\<open>tx.OrganizationID()\<close>.
\<close>

datatype tx_status = NoTransaction | InTransaction | Aborted

datatype pg_code =
    NoActiveSQLTransaction | InFailedSQLTransaction | UniqueViolation
  | InvalidSavepointSpecification

datatype data_error =
    PgError pg_code | ErrDuplicate | ErrNotFound | ErrNoRows | ScanNullError | Errorf string

record Txn =
  tx_OrganizationID :: uid
  grants :: "Grant list"
  user_public_keys :: "UserPublicKey list"
  seq_update_index :: int
  status :: tx_status
  savepoints :: "(string \<times> Grant list) list"

subsection \<open>The WHERE clauses the query builder is given\<close>

text \<open>
  One constructor for each clause text that the functions pass to \<^verbatim>\<open>query.B\<close>, with the
  arguments bound to its placeholders.
\<close>

datatype cond =
    DeletedAtIsNull
  | OrganizationIdEq uid
  | IdEq uid
  | SubjectEq string
  | SubjectIn "string list"
  | PrivilegeEq string
  | PrivilegeIn "string list"
  | ResourceEq string
  | ResourceEqOrLike string string
  | NotConnectorInfra
  | CreatedByEq uid
  | IdNotIn "uid list"

datatype key_cond = KeyDeletedAtIsNull | UserIdEq uid

text \<open>
  SQL \<^verbatim>\<open>LIKE\<close>: \<^verbatim>\<open>%\<close> matches any run of characters, \<^verbatim>\<open>_\<close> any one character, a
  backslash takes the next pattern character literally (a pattern ending in a lone
  backslash matches nothing here).
\<close>

fun sql_like :: "string \<Rightarrow> string \<Rightarrow> bool" where
  "sql_like [] s = (s = [])"
| "sql_like (p # ps) s =
     (if p = CHR ''%'' then
        (sql_like ps s \<or> (case s of [] \<Rightarrow> False | _ # t \<Rightarrow> sql_like (p # ps) t))
      else if p = CHR ''_'' then
        (case s of [] \<Rightarrow> False | _ # t \<Rightarrow> sql_like ps t)
      else if p = CHR 0x5C then
        (case ps of
           [] \<Rightarrow> False
         | q # qs \<Rightarrow> (case s of [] \<Rightarrow> False | c # t \<Rightarrow> c = q \<and> sql_like qs t))
      else (case s of [] \<Rightarrow> False | c # t \<Rightarrow> c = p \<and> sql_like ps t))"

fun holds :: "cond \<Rightarrow> Grant \<Rightarrow> bool" where
  "holds DeletedAtIsNull g = (DeletedAt g = None)"
| "holds (OrganizationIdEq org) g = (OrganizationID g = org)"
| "holds (IdEq i) g = (ID g = i)"
| "holds (SubjectEq s) g = (Subject g = s)"
| "holds (SubjectIn ss) g = (Subject g \<in> set ss)"
| "holds (PrivilegeEq p) g = (Privilege g = p)"
| "holds (PrivilegeIn ps) g = (Privilege g \<in> set ps)"
| "holds (ResourceEq r) g = (Resource g = r)"
| "holds (ResourceEqOrLike r pat) g = (Resource g = r \<or> sql_like pat (Resource g))"
| "holds NotConnectorInfra g = (\<not> (Privilege g = ''connector'' \<and> Resource g = ''infra''))"
| "holds (CreatedByEq u) g = (CreatedBy g = u)"
| "holds (IdNotIn is) g = (ID g \<notin> set is)"

fun key_holds :: "key_cond \<Rightarrow> UserPublicKey \<Rightarrow> bool" where
  "key_holds KeyDeletedAtIsNull k = (k_DeletedAt k = None)"
| "key_holds (UserIdEq u) k = (k_UserID k = u)"

definition matching :: "cond list \<Rightarrow> Grant list \<Rightarrow> Grant list" where
  "matching conds rows = filter (\<lambda>g. list_all (\<lambda>c. holds c g) conds) rows"

text \<open>\<^verbatim>\<open>LIMIT n OFFSET m\<close>, when the query has one.\<close>

definition limit_offset :: "(nat \<times> nat) option \<Rightarrow> 'a list \<Rightarrow> 'a list" where
  "limit_offset lim rows = (case lim of None \<Rightarrow> rows | Some (n, m) \<Rightarrow> take n (drop m rows))"

text \<open>
  A statement sent in a failed transaction block is refused by the server; otherwise a
  \<^verbatim>\<open>SELECT\<close> returns the matching rows. \<open>Query_grants\<close> is the shape of the query of
  \<^verbatim>\<open>ListGrants\<close> (\<^verbatim>\<open>ORDER BY id ASC\<close>, then the window), \<open>QueryRow_grant\<close> the one of
  \<^verbatim>\<open>GetGrant\<close> (the first matching row is scanned, and no row is an error),
  \<open>Query_keys\<close> the one of \<^verbatim>\<open>userPublicKeys\<close>.
\<close>

definition Query_grants :: "Txn \<Rightarrow> cond list \<Rightarrow> (nat \<times> nat) option \<Rightarrow> data_error + Grant list" where
  "Query_grants tx conds lim =
     (if status tx = Aborted then Inl (PgError InFailedSQLTransaction)
      else Inr (limit_offset lim (sort_key ID (matching conds (grants tx)))))"

definition QueryRow_grant :: "Txn \<Rightarrow> cond list \<Rightarrow> data_error + Grant" where
  "QueryRow_grant tx conds =
     (if status tx = Aborted then Inl (PgError InFailedSQLTransaction)
      else (case matching conds (grants tx) of [] \<Rightarrow> Inl ErrNoRows | g # _ \<Rightarrow> Inr g))"

definition Query_keys :: "Txn \<Rightarrow> key_cond list \<Rightarrow> data_error + UserPublicKey list" where
  "Query_keys tx conds =
     (if status tx = Aborted then Inl (PgError InFailedSQLTransaction)
      else Inr (filter (\<lambda>k. list_all (\<lambda>c. key_holds c k) conds) (user_public_keys tx)))"

text \<open>
  \<^verbatim>\<open>SELECT max(update_index)\<close> scanned into an \<^verbatim>\<open>int64\<close>: over no rows the aggregate is
  NULL, which the scan refuses, leaving the zero value.
\<close>

definition QueryRow_max_update_index :: "Txn \<Rightarrow> cond list \<Rightarrow> int \<times> data_error option" where
  "QueryRow_max_update_index tx conds =
     (if status tx = Aborted then (0, Some (PgError InFailedSQLTransaction))
      else (case map UpdateIndex (matching conds (grants tx)) of
              [] \<Rightarrow> (0, Some ScanNullError)
            | i # is \<Rightarrow> (fold max is i, None)))"

subsection \<open>Reading grants and public keys\<close>

text \<open>
  The functions below call parts of the repository that lie outside the files embedded
  here; these are parameters: the methods \<^verbatim>\<open>ID\<close> (\<open>None\<close> for its error) and
  \<^verbatim>\<open>IsIdentity\<close> of \<^verbatim>\<open>uid.PolymorphicID\<close>, \<^verbatim>\<open>uid.NewGroupPolymorphicID\<close> (already
  rendered with \<^verbatim>\<open>String\<close>), \<^verbatim>\<open>groupIDsForUser\<close>, and the \<^verbatim>\<open>LIMIT\<close> and \<^verbatim>\<open>OFFSET\<close>
  that \<^verbatim>\<open>Pagination.PaginateQuery\<close> appends to a query (\<open>None\<close> when it appends none).
\<close>

record Pagination =
  Page :: int
  Limit :: int

record deps =
  PolymorphicID_ID :: "string \<Rightarrow> uid option"
  PolymorphicID_IsIdentity :: "string \<Rightarrow> bool"
  NewGroupPolymorphicID :: "uid \<Rightarrow> string"
  groupIDsForUser :: "Txn \<Rightarrow> uid \<Rightarrow> data_error + uid list"
  PaginateQuery :: "Pagination \<Rightarrow> (nat \<times> nat) option"

record grantsMaxUpdateIndexOptions =
  mx_ByResource :: string

definition grantsMaxUpdateIndex_where :: "Txn \<Rightarrow> grantsMaxUpdateIndexOptions \<Rightarrow> cond list" where
  "grantsMaxUpdateIndex_where tx opts =
     [OrganizationIdEq (tx_OrganizationID tx)]
     @ (if mx_ByResource opts \<noteq> [] then [ResourceEq (mx_ByResource opts)] else [])"

definition grantsMaxUpdateIndex :: "Txn \<Rightarrow> grantsMaxUpdateIndexOptions \<Rightarrow> int \<times> data_error option" where
  "grantsMaxUpdateIndex tx opts =
     QueryRow_max_update_index tx (grantsMaxUpdateIndex_where tx opts)"

text \<open>
  \<open>MaxUpdateIndex\<close> says whether the pointer of that name is set; the value written
  through it is the third field of the result. The window count that a paginated query
  writes to \<^verbatim>\<open>Pagination.TotalCount\<close> is left out.
\<close>

record ListGrantsOptions =
  BySubject :: string
  ByPrivileges :: "string list"
  ByResource :: string
  ByDestination :: string
  IncludeInheritedFromGroups :: bool
  ExcludeConnectorGrant :: bool
  Pagination :: "Pagination option"
  MaxUpdateIndex :: bool

record ListGrantsResult =
  result :: "Grant list"
  err :: "data_error option"
  max_update_index :: "int option"

text \<open>The clause on the subject, or the early error return.\<close>

definition ListGrants_subject :: "deps \<Rightarrow> Txn \<Rightarrow> ListGrantsOptions \<Rightarrow> data_error + cond list" where
  "ListGrants_subject d tx opts =
     (if BySubject opts = [] then Inr []
      else if \<not> IncludeInheritedFromGroups opts then Inr [SubjectEq (BySubject opts)]
      else (case PolymorphicID_ID d (BySubject opts) of
              None \<Rightarrow> Inl (Errorf ''IncludeInheritedFromGroups requires a userId subject'')
            | Some userID \<Rightarrow>
                if \<not> PolymorphicID_IsIdentity d (BySubject opts)
                then Inl (Errorf ''IncludeInheritedFromGroups requires a userId subject'')
                else (case groupIDsForUser d tx userID of
                        Inl e \<Rightarrow> Inl e
                      | Inr groupIDs \<Rightarrow>
                          Inr [SubjectIn (BySubject opts # map (NewGroupPolymorphicID d) groupIDs)])))"

text \<open>The clauses that follow the one on the subject.\<close>

definition ListGrants_filters :: "ListGrantsOptions \<Rightarrow> cond list" where
  "ListGrants_filters opts =
     (if ByPrivileges opts \<noteq> [] then [PrivilegeIn (ByPrivileges opts)] else [])
     @ (if ByResource opts \<noteq> [] then [ResourceEq (ByResource opts)] else [])
     @ (if ByDestination opts \<noteq> []
        then [ResourceEqOrLike (ByDestination opts) (ByDestination opts @ ''.%'')] else [])
     @ (if ExcludeConnectorGrant opts then [NotConnectorInfra] else [])"

definition ListGrants :: "deps \<Rightarrow> Txn \<Rightarrow> ListGrantsOptions \<Rightarrow> ListGrantsResult" where
  "ListGrants d tx opts =
     (case ListGrants_subject d tx opts of
        Inl e \<Rightarrow> \<lparr>result = [], err = Some e, max_update_index = None\<rparr>
      | Inr subject_clause \<Rightarrow>
          (case Query_grants tx
                  ([DeletedAtIsNull, OrganizationIdEq (tx_OrganizationID tx)]
                   @ subject_clause @ ListGrants_filters opts)
                  (case Pagination opts of None \<Rightarrow> None | Some p \<Rightarrow> PaginateQuery d p) of
             Inl e \<Rightarrow> \<lparr>result = [], err = Some e, max_update_index = None\<rparr>
           | Inr rows \<Rightarrow>
               if MaxUpdateIndex opts
               then (case grantsMaxUpdateIndex tx \<lparr>mx_ByResource = ByResource opts\<rparr> of
                       (maxIndex, e) \<Rightarrow>
                         \<lparr>result = rows, err = e, max_update_index = Some maxIndex\<rparr>)
               else \<lparr>result = rows, err = None, max_update_index = None\<rparr>))"

record GetGrantOptions =
  ByID :: uid
  gg_BySubject :: string
  gg_ByPrivilege :: string
  gg_ByResource :: string

text \<open>
  Modelled from the spec: \<^verbatim>\<open>handleReadError\<close> lies outside the files embedded here; a
  lookup that finds no row is reported as the not-found kind of error, any other error is
  passed on.
\<close>

definition handleReadError :: "data_error \<Rightarrow> data_error" where
  "handleReadError e = (if e = ErrNoRows then ErrNotFound else e)"

definition GetGrant :: "Txn \<Rightarrow> GetGrantOptions \<Rightarrow> data_error + Grant" where
  "GetGrant tx opts =
     (let base = [OrganizationIdEq (tx_OrganizationID tx), DeletedAtIsNull]
      in if ByID opts \<noteq> 0 then
           (case QueryRow_grant tx (base @ [IdEq (ByID opts)]) of
              Inl e \<Rightarrow> Inl (handleReadError e) | Inr g \<Rightarrow> Inr g)
         else if gg_BySubject opts \<noteq> [] then
           (case QueryRow_grant tx
                   (base @ [SubjectEq (gg_BySubject opts), PrivilegeEq (gg_ByPrivilege opts),
                            ResourceEq (gg_ByResource opts)]) of
              Inl e \<Rightarrow> Inl (handleReadError e) | Inr g \<Rightarrow> Inr g)
         else Inl (Errorf ''GetGrant requires an ID or subject''))"

definition userPublicKeys :: "Txn \<Rightarrow> uid \<Rightarrow> data_error + UserPublicKey list" where
  "userPublicKeys tx userID = Query_keys tx [KeyDeletedAtIsNull, UserIdEq userID]"

subsection \<open>Writing grants\<close>

text \<open>
  The statements of \<^verbatim>\<open>CreateGrant\<close> and \<^verbatim>\<open>DeleteGrants\<close> as the server executes them.
  Each returns the error code, if any, and the state afterwards.
  \<^item> \<^verbatim>\<open>SAVEPOINT\<close> needs a transaction block; in one it records the table.
  \<^item> \<^verbatim>\<open>ROLLBACK TO SAVEPOINT\<close> restores the table of the newest savepoint of that name,
    forgets the savepoints set after it and makes a failed block usable again.
  \<^item> \<^verbatim>\<open>RELEASE SAVEPOINT\<close> forgets the savepoint and those set after it.
  \<^item> An error inside a transaction block makes the block fail.
\<close>

definition fail_block :: "Txn \<Rightarrow> Txn" where
  "fail_block tx = (if status tx = InTransaction then tx\<lparr>status := Aborted\<rparr> else tx)"

definition Exec_SAVEPOINT :: "string \<Rightarrow> Txn \<Rightarrow> pg_code option \<times> Txn" where
  "Exec_SAVEPOINT name tx =
     (case status tx of
        NoTransaction \<Rightarrow> (Some NoActiveSQLTransaction, tx)
      | Aborted \<Rightarrow> (Some InFailedSQLTransaction, tx)
      | InTransaction \<Rightarrow> (None, tx\<lparr>savepoints := (name, grants tx) # savepoints tx\<rparr>))"

definition Exec_ROLLBACK_TO_SAVEPOINT :: "string \<Rightarrow> Txn \<Rightarrow> pg_code option \<times> Txn" where
  "Exec_ROLLBACK_TO_SAVEPOINT name tx =
     (if status tx = NoTransaction then (Some NoActiveSQLTransaction, tx)
      else (case dropWhile (\<lambda>sp. fst sp \<noteq> name) (savepoints tx) of
              [] \<Rightarrow> (Some InvalidSavepointSpecification, tx\<lparr>status := Aborted\<rparr>)
            | sp # older \<Rightarrow>
                (None, tx\<lparr>grants := snd sp, status := InTransaction,
                           savepoints := sp # older\<rparr>)))"

definition Exec_RELEASE_SAVEPOINT :: "string \<Rightarrow> Txn \<Rightarrow> pg_code option \<times> Txn" where
  "Exec_RELEASE_SAVEPOINT name tx =
     (case status tx of
        NoTransaction \<Rightarrow> (Some NoActiveSQLTransaction, tx)
      | Aborted \<Rightarrow> (Some InFailedSQLTransaction, tx)
      | InTransaction \<Rightarrow>
          (case dropWhile (\<lambda>sp. fst sp \<noteq> name) (savepoints tx) of
             [] \<Rightarrow> (Some InvalidSavepointSpecification, tx\<lparr>status := Aborted\<rparr>)
           | sp # older \<Rightarrow> (None, tx\<lparr>savepoints := older\<rparr>)))"

text \<open>
  Modelled from the spec: the schema of the \<^verbatim>\<open>grants\<close> table lies outside the files
  embedded here. By the data model \<^verbatim>\<open>id\<close> is unique, and by invariant (I1) a row is unique in
  \<^verbatim>\<open>(organization_id, subject, privilege, resource)\<close> among the rows that are not deleted.
\<close>

definition same_grant :: "Grant \<Rightarrow> Grant \<Rightarrow> bool" where
  "same_grant a b =
     (OrganizationID a = OrganizationID b \<and> Subject a = Subject b \<and>
      Privilege a = Privilege b \<and> Resource a = Resource b)"

definition unique_violation :: "Grant list \<Rightarrow> Grant \<Rightarrow> bool" where
  "unique_violation rows g =
     (list_ex (\<lambda>r. ID r = ID g) rows \<or>
      (DeletedAt g = None \<and> list_ex (\<lambda>r. DeletedAt r = None \<and> same_grant r g) rows))"

text \<open>
  \<^verbatim>\<open>INSERT INTO grants (..., update_index) VALUES (..., nextval('seq_update_index'))\<close>.
  A value drawn from a sequence is never given back, also when the statement fails or is
  rolled back.
\<close>

definition Exec_INSERT_grant :: "Grant \<Rightarrow> Txn \<Rightarrow> pg_code option \<times> Txn" where
  "Exec_INSERT_grant g tx =
     (if status tx = Aborted then (Some InFailedSQLTransaction, tx)
      else (let idx = seq_update_index tx + 1;
                tx1 = tx\<lparr>seq_update_index := idx\<rparr>
            in if unique_violation (grants tx) g
               then (Some UniqueViolation, fail_block tx1)
               else (None, tx1\<lparr>grants := grants tx @ [g\<lparr>UpdateIndex := idx\<rparr>]\<rparr>)))"

text \<open>
  \<^verbatim>\<open>UPDATE grants SET deleted_at = ?, update_index = nextval('seq_update_index') WHERE ...\<close>:
  every matching row draws its own value from the sequence.
\<close>

fun soft_delete :: "cond list \<Rightarrow> int \<Rightarrow> int \<Rightarrow> Grant list \<Rightarrow> Grant list \<times> int" where
  "soft_delete conds now seq [] = ([], seq)"
| "soft_delete conds now seq (g # gs) =
     (if list_all (\<lambda>c. holds c g) conds
      then (case soft_delete conds now (seq + 1) gs of
              (gs', seq') \<Rightarrow> (g\<lparr>DeletedAt := Some now, UpdateIndex := seq + 1\<rparr> # gs', seq'))
      else (case soft_delete conds now seq gs of
              (gs', seq') \<Rightarrow> (g # gs', seq')))"

definition Exec_UPDATE_grants_deleted :: "cond list \<Rightarrow> int \<Rightarrow> Txn \<Rightarrow> pg_code option \<times> Txn" where
  "Exec_UPDATE_grants_deleted conds now tx =
     (if status tx = Aborted then (Some InFailedSQLTransaction, tx)
      else (case soft_delete conds now (seq_update_index tx) (grants tx) of
              (rows, seq) \<Rightarrow> (None, tx\<lparr>grants := rows, seq_update_index := seq\<rparr>)))"

text \<open>\<^verbatim>\<open>isPgErrorCode\<close>, on the error of an \<^verbatim>\<open>Exec\<close>.\<close>

definition isPgErrorCode :: "pg_code option \<Rightarrow> pg_code \<Rightarrow> bool" where
  "isPgErrorCode e code = (e = Some code)"

text \<open>
  Modelled from the spec: \<^verbatim>\<open>handleError\<close> lies outside the files embedded here; a
  uniqueness conflict is reported as \<^verbatim>\<open>ErrDuplicate\<close>, any other error is passed on.
\<close>

definition handleError :: "pg_code \<Rightarrow> data_error" where
  "handleError e = (if e = UniqueViolation then ErrDuplicate else PgError e)"

text \<open>
  Modelled from the spec: \<^verbatim>\<open>setOrg\<close> lies outside the files embedded here as well;
  writes are scoped to the organization that the transaction carries, so it stamps the row
  with that organization.
\<close>

definition setOrg :: "Txn \<Rightarrow> Grant \<Rightarrow> Grant" where
  "setOrg tx g = g\<lparr>OrganizationID := tx_OrganizationID tx\<rparr>"

text \<open>
  \<open>OnInsert\<close> is the method \<^verbatim>\<open>grant.OnInsert\<close> (it fills in the id and the timestamps, or
  fails), a parameter. The result is the returned error, the state of the database
  afterwards, and the grant as the caller's pointer sees it.
\<close>

definition CreateGrant ::
  "(Grant \<Rightarrow> data_error + Grant) \<Rightarrow> Txn \<Rightarrow> Grant \<Rightarrow> data_error option \<times> Txn \<times> Grant" where
  "CreateGrant OnInsert tx grant =
     (if Subject grant = [] then (Some (Errorf ''subject is required''), tx, grant)
      else if Privilege grant = [] then (Some (Errorf ''privilege is required''), tx, grant)
      else if Resource grant = [] then (Some (Errorf ''resource is required''), tx, grant)
      else (case OnInsert grant of
              Inl e \<Rightarrow> (Some e, tx, grant)
            | Inr g1 \<Rightarrow>
                (let g2 = setOrg tx g1
                 in case Exec_SAVEPOINT ''beforeCreate'' tx of
                      (e, tx1) \<Rightarrow>
                        (case (if isPgErrorCode e NoActiveSQLTransaction then None else e) of
                           Some c \<Rightarrow> (Some (PgError c), tx1, g2)
                         | None \<Rightarrow>
                             (case Exec_INSERT_grant g2 tx1 of
                                (Some c, tx2) \<Rightarrow>
                                  (Some (handleError c),
                                   snd (Exec_ROLLBACK_TO_SAVEPOINT ''beforeCreate'' tx2), g2)
                              | (None, tx2) \<Rightarrow>
                                  (None,
                                   snd (Exec_RELEASE_SAVEPOINT ''beforeCreate'' tx2), g2))))))"

record DeleteGrantsOptions =
  dg_ByID :: uid
  dg_BySubject :: string
  dg_ByCreatedBy :: uid
  dg_NotIDs :: "uid list"

text \<open>The clauses of the \<^verbatim>\<open>UPDATE\<close> of \<^verbatim>\<open>DeleteGrants\<close>, or its early error return.\<close>

definition DeleteGrants_where :: "Txn \<Rightarrow> DeleteGrantsOptions \<Rightarrow> data_error + cond list" where
  "DeleteGrants_where tx opts =
     (let base = [OrganizationIdEq (tx_OrganizationID tx), DeletedAtIsNull]
      in if dg_ByID opts \<noteq> 0 then Inr (base @ [IdEq (dg_ByID opts)])
         else if dg_BySubject opts \<noteq> [] then Inr (base @ [SubjectEq (dg_BySubject opts)])
         else if dg_ByCreatedBy opts \<noteq> 0 then
           Inr (base @ CreatedByEq (dg_ByCreatedBy opts)
                       # (if dg_NotIDs opts \<noteq> [] then [IdNotIn (dg_NotIDs opts)] else []))
         else Inl (Errorf ''DeleteGrants requires an ID to delete''))"

definition DeleteGrants :: "int \<Rightarrow> Txn \<Rightarrow> DeleteGrantsOptions \<Rightarrow> data_error option \<times> Txn" where
  "DeleteGrants now tx opts =
     (case DeleteGrants_where tx opts of
        Inl e \<Rightarrow> (Some e, tx)
      | Inr conds \<Rightarrow>
          (case Exec_UPDATE_grants_deleted conds now tx of
             (e, tx') \<Rightarrow> (map_option PgError e, tx')))"

subsection \<open>Access keys\<close>

text \<open>
  Modelled from the spec: \<^verbatim>\<open>CreateAccessKey\<close>, \<^verbatim>\<open>GetAccessKey\<close> and
  \<^verbatim>\<open>ValidateAccessKey\<close> lie outside the files embedded here, only their tests are
  among them. The definitions follow sections 3 and 4.2 of the specification: the wire form
  is \<^verbatim>\<open>keyID.secret\<close>; only a checksum of the secret persists; the extension deadline
  is optional; validation parses the dot-separated form, looks the key up by its key id,
  compares checksums and then checks the expiry and the deadline, failing with one of four
  errors; a successful validation of a key with a non-zero extension moves the deadline to
  the extension from now, bounded by the expiry. The checksum function is a parameter, and
  the key that \<^verbatim>\<open>CreateAccessKey\<close> is given carries the key id and the secret chosen for
  it (by the caller or by the random generator). The two length errors are the ones the
  tests of \<^verbatim>\<open>CreateAccessKey\<close> expect. The specification names no error for a presented
  string without a dot; no key id can be looked up then, and the model reports the key as
  not found.
\<close>

record AccessKey =
  ak_ID :: uid
  ak_DeletedAt :: "int option"
  ak_Name :: string
  IssuedFor :: uid
  ProviderID :: uid
  ExpiresAt :: int
  Extension :: int
  ExtensionDeadline :: "int option"
  KeyID :: string
  Secret :: string
  SecretChecksum :: string
  Scopes :: "string list"

datatype access_key_error =
    ErrAccessKeyNotFound | ErrAccessKeyInvalidSecret | ErrAccessKeyExpired
  | ErrAccessKeyDeadlineExceeded | InvalidKeyLength | InvalidSecretLength

definition AccessKeyKeyLength :: nat where
  "AccessKeyKeyLength = 10"

definition AccessKeySecretLength :: nat where
  "AccessKeySecretLength = 24"

definition CreateAccessKey ::
  "(string \<Rightarrow> string) \<Rightarrow> AccessKey list \<Rightarrow> AccessKey \<Rightarrow>
   access_key_error + (string \<times> AccessKey list)" where
  "CreateAccessKey secretChecksum tbl k =
     (if length (KeyID k) < AccessKeyKeyLength then Inl InvalidKeyLength
      else if length (Secret k) < AccessKeySecretLength then Inl InvalidSecretLength
      else Inr (KeyID k @ ''.'' @ Secret k,
                tbl @ [k\<lparr>SecretChecksum := secretChecksum (Secret k), Secret := []\<rparr>]))"

definition GetAccessKey :: "AccessKey list \<Rightarrow> uid \<Rightarrow> access_key_error + AccessKey" where
  "GetAccessKey tbl i =
     (case filter (\<lambda>r. ak_DeletedAt r = None \<and> ak_ID r = i) tbl of
        [] \<Rightarrow> Inl ErrAccessKeyNotFound
      | r # _ \<Rightarrow> Inr r)"

definition GetAccessKeyByKeyID :: "AccessKey list \<Rightarrow> string \<Rightarrow> access_key_error + AccessKey" where
  "GetAccessKeyByKeyID tbl kid =
     (case filter (\<lambda>r. ak_DeletedAt r = None \<and> KeyID r = kid) tbl of
        [] \<Rightarrow> Inl ErrAccessKeyNotFound
      | r # _ \<Rightarrow> Inr r)"

text \<open>The presented string up to its first dot, and what follows the dot.\<close>

definition split_access_key :: "string \<Rightarrow> (string \<times> string) option" where
  "split_access_key s =
     (case dropWhile (\<lambda>c. c \<noteq> CHR ''.'') s of
        [] \<Rightarrow> None
      | _ # secret \<Rightarrow> Some (takeWhile (\<lambda>c. c \<noteq> CHR ''.'') s, secret))"

definition extend_deadline :: "int \<Rightarrow> AccessKey \<Rightarrow> AccessKey" where
  "extend_deadline now k =
     (if Extension k \<noteq> 0
      then k\<lparr>ExtensionDeadline := Some (min (now + Extension k) (ExpiresAt k))\<rparr>
      else k)"

definition ValidateAccessKey ::
  "(string \<Rightarrow> string) \<Rightarrow> AccessKey list \<Rightarrow> int \<Rightarrow> string \<Rightarrow>
   access_key_error + (AccessKey \<times> AccessKey list)" where
  "ValidateAccessKey secretChecksum tbl now authnKey =
     (case split_access_key authnKey of
        None \<Rightarrow> Inl ErrAccessKeyNotFound
      | Some (kid, secret) \<Rightarrow>
          (case GetAccessKeyByKeyID tbl kid of
             Inl e \<Rightarrow> Inl e
           | Inr k \<Rightarrow>
               if secretChecksum secret \<noteq> SecretChecksum k then Inl ErrAccessKeyInvalidSecret
               else if \<not> now < ExpiresAt k then Inl ErrAccessKeyExpired
               else if (case ExtensionDeadline k of None \<Rightarrow> False | Some d \<Rightarrow> \<not> now < d)
               then Inl ErrAccessKeyDeadlineExceeded
               else Inr (extend_deadline now k,
                         map (\<lambda>r. if ak_ID r = ak_ID k then extend_deadline now k else r) tbl)))"

section \<open>Example inputs\<close>

subsection \<open>A token library with symbolic signatures\<close>

text \<open>
  An instance of the library parameters for the examples: a token names the key that signed
  it, a key verifies exactly the tokens it signed, and validation checks the issuer and
  then the expiry.
\<close>

record ex_token =
  signed_by :: nat
  iss :: string
  exp :: int
  email_claim :: "JSONValue option"

definition ex_alice :: ex_token where
  "ex_alice = \<lparr>signed_by = 2, iss = ''infra'', exp = 1000, email_claim = Some (JString ''alice@x'')\<rparr>"

definition ex_tokens :: "string \<Rightarrow> ex_token option" where
  "ex_tokens raw =
     (if raw = ''alice.jwt'' then Some ex_alice
      else if raw = ''old.jwt'' then Some (ex_alice\<lparr>exp := 10\<rparr>)
      else if raw = ''other.jwt'' then Some (ex_alice\<lparr>iss := ''other''\<rparr>)
      else if raw = ''anon.jwt'' then Some (ex_alice\<lparr>email_claim := None\<rparr>)
      else if raw = ''Bearer '' then Some ex_alice
      else None)"

definition ex_jose :: "(ex_token, nat, ex_token) jose" where
  "ex_jose =
     \<lparr>ParseSigned = ex_tokens,
      Claims = (\<lambda>tok k. if k = Some (signed_by tok)
                         then Some (tok, \<lambda>c. if c = ''email'' then email_claim tok else None)
                         else None),
      Validate = (\<lambda>cl i t. if iss cl \<noteq> i then Some ErrInvalidIssuer
                           else if exp cl < t then Some ErrExpired else None)\<rparr>"

definition ex_request :: "string \<Rightarrow> Request" where
  "ex_request authorization =
     \<lparr>Header = [''X-Infra-Authorization'' \<mapsto> [authorization]],
      URL_Path = ''/proxy/api/v1/pods'', URL_RawPath = [], URL_RawQuery = [],
      ctx_email = None\<rparr>"

definition ex_cache :: "nat jwkCache" where
  "ex_cache = \<lparr>key = None, lastChecked = None\<rparr>"

text \<open>A cache that was filled with the key 2 at time 0.\<close>

definition ex_filled_cache :: "nat jwkCache" where
  "ex_filled_cache = \<lparr>key = Some 2, lastChecked = Some 0\<rparr>"

text \<open>
  A request that arrives with an \<^verbatim>\<open>Authorization\<close> header of its own, and a next handler
  that answers with the email it finds in the context.
\<close>

definition ex_inbound :: Request where
  "ex_inbound =
     \<lparr>Header = [''Authorization'' \<mapsto> [''Bearer client-token''],
                ''X-Infra-Authorization'' \<mapsto> [''Bearer alice.jwt'']],
      URL_Path = ''/proxy/api/v1/pods'', URL_RawPath = [], URL_RawQuery = [],
      ctx_email = None\<rparr>"

definition ex_echo :: "string option \<Rightarrow> Response" where
  "ex_echo e = HttpError (case e of None \<Rightarrow> ''nobody'' | Some m \<Rightarrow> m) 200"

subsection \<open>A tick whose ListRoles call fails\<close>

definition ex_env :: tick_env where
  "ex_env =
     \<lparr>k8s_CA = Inr ''ca-bundle'', k8s_Endpoint = Inr ''10.0.0.1'',
      k8s_Namespace = Inr ''infra'', k8s_Name = Inr ''prod'', k8s_SaToken = Inr ''sa-token'',
      client_CreateDestination = (\<lambda>req. (Some \<lparr>Id = ''d1''\<rparr>, None)),
      client_ListRoles = (\<lambda>i. (None, Some ''rpc error: registry unavailable'')),
      k8s_UpdateRoles = (\<lambda>rbs. None)\<rparr>"

subsection \<open>A database with two organizations\<close>

text \<open>
  User 7 (subject \<open>u:7\<close>) of organization 1 is a member of group 3 (subject \<open>g:3\<close>).
  Pagination, where used, is \<^verbatim>\<open>LIMIT Limit OFFSET Limit * (Page - 1)\<close>.
\<close>

definition ex_deps :: deps where
  "ex_deps =
     \<lparr>PolymorphicID_ID =
        (\<lambda>s. if s = ''u:7'' then Some 7 else if s = ''g:3'' then Some 3 else None),
      PolymorphicID_IsIdentity = (\<lambda>s. strings_HasPrefix s ''u:''),
      NewGroupPolymorphicID = (\<lambda>i. if i = 3 then ''g:3'' else ''g:0''),
      groupIDsForUser = (\<lambda>tx u. if u = 7 then Inr [3] else Inr []),
      PaginateQuery =
        (\<lambda>p. if Limit p = 0 then None
             else Some (nat (Limit p), nat (Limit p * (Page p - 1))))\<rparr>"

definition ex_grant ::
  "uid \<Rightarrow> uid \<Rightarrow> string \<Rightarrow> string \<Rightarrow> string \<Rightarrow> int \<Rightarrow> int option \<Rightarrow> Grant" where
  "ex_grant i org s p r idx del =
     \<lparr>ID = i, CreatedAt = 0, UpdatedAt = 0, DeletedAt = del, OrganizationID = org,
      Subject = s, Privilege = p, Resource = r, CreatedBy = 0, UpdateIndex = idx\<rparr>"

definition ex_key :: UserPublicKey where
  "ex_key =
     \<lparr>k_ID = 21, k_CreatedAt = 0, k_UpdatedAt = 0, k_DeletedAt = None, k_UserID = 7,
      k_Name = ''laptop'', k_PublicKey = ''AAAAC3Nz'', k_KeyType = ''ssh-ed25519'',
      k_ExpiresAt = 0, k_Fingerprint = ''SHA256:abc''\<rparr>"

definition ex_tx :: Txn where
  "ex_tx =
     \<lparr>tx_OrganizationID = 1,
      grants =
        [ex_grant 12 1 ''g:3'' ''admin'' ''prod'' 2 None,
         ex_grant 11 1 ''u:7'' ''view'' ''prod'' 1 None,
         ex_grant 13 1 ''u:8'' ''view'' ''staging'' 5 (Some 100),
         ex_grant 14 2 ''u:7'' ''admin'' ''prod'' 4 None],
      user_public_keys = [ex_key, ex_key\<lparr>k_ID := 22, k_DeletedAt := Some 50\<rparr>],
      seq_update_index = 5,
      status = InTransaction,
      savepoints = []\<rparr>"

definition ex_opts :: ListGrantsOptions where
  "ex_opts =
     \<lparr>BySubject = ''u:7'', ByPrivileges = [], ByResource = [], ByDestination = ''prod'',
      IncludeInheritedFromGroups = True, ExcludeConnectorGrant = False, Pagination = None,
      MaxUpdateIndex = True\<rparr>"

text \<open>The soft delete of the grant 11.\<close>

definition ex_delete :: DeleteGrantsOptions where
  "ex_delete = \<lparr>dg_ByID = 11, dg_BySubject = [], dg_ByCreatedBy = 0, dg_NotIDs = []\<rparr>"

text \<open>
  An \<^verbatim>\<open>OnInsert\<close> that gives a grant without id the id 99 and stamps it with the time 7.
\<close>

definition ex_OnInsert :: "Grant \<Rightarrow> data_error + Grant" where
  "ex_OnInsert g =
     Inr (g\<lparr>ID := (if ID g = 0 then 99 else ID g), CreatedAt := 7, UpdatedAt := 7\<rparr>)"

subsection \<open>An access key\<close>

text \<open>A stand-in for the checksum, and a key that expires at time 1000.\<close>

definition ex_checksum :: "string \<Rightarrow> string" where
  "ex_checksum s = rev s"

definition ex_access_key :: AccessKey where
  "ex_access_key =
     \<lparr>ak_ID = 31, ak_DeletedAt = None, ak_Name = ''the-key'', IssuedFor = 7, ProviderID = 1,
      ExpiresAt = 1000, Extension = 0, ExtensionDeadline = Some 500,
      KeyID = ''0123456789'', Secret = ''012345678901234567890123'',
      SecretChecksum = [], Scopes = []\<rparr>"

section \<open>Properties of the engine proxy\<close>

lemmas header_defs =
  Header_Get_def Header_Values_def Header_Set_def Header_Add_def Header_Del_def

lemmas ex_engine_defs =
  ex_request_def ex_jose_def ex_tokens_def ex_alice_def ex_cache_def ex_inbound_def

subsection \<open>Removing the word Bearer\<close>

lemma strings_Replace_absent:
  "\<not> sublist old s \<Longrightarrow> strings_Replace s old = s"
proof (induction s)
  case Nil
  then show ?case by simp
next
  case (Cons c cs)
  have np: "\<not> prefix old (c # cs)"
    using Cons.prems by (auto simp: sublist_Cons_right)
  have "\<not> strings_HasPrefix (c # cs) old"
  proof
    assume "strings_HasPrefix (c # cs) old"
    then have "take (length old) (c # cs) = old"
      by (simp add: strings_HasPrefix_def)
    then have "prefix old (c # cs)"
      by (metis take_is_prefix)
    with np show False by simp
  qed
  moreover have "\<not> sublist old cs"
    using Cons.prems by (auto simp: sublist_Cons_right)
  ultimately show ?case
    using Cons.IH by simp
qed

lemma strings_Replace_length_le:
  "length (strings_Replace s old) \<le> length s"
  by (induction s old rule: strings_Replace.induct) (auto simp: le_Suc_eq)

lemma strings_Replace_shorter:
  "old \<noteq> [] \<Longrightarrow> sublist old s \<Longrightarrow> length (strings_Replace s old) < length s"
proof (induction s)
  case Nil
  then show ?case by simp
next
  case (Cons c cs)
  show ?case
  proof (cases "strings_HasPrefix (c # cs) old")
    case True
    have "length (strings_Replace (drop (length old) (c # cs)) old)
            \<le> length (drop (length old) (c # cs))"
      by (rule strings_Replace_length_le)
    also have "\<dots> < length (c # cs)"
      using Cons.prems(1) by (cases old) auto
    finally show ?thesis
      using True Cons.prems(1) by simp
  next
    case False
    then have "\<not> prefix old (c # cs)"
      by (auto simp: strings_HasPrefix_def prefix_def)
    then have "sublist old cs"
      using Cons.prems(2) by (simp add: sublist_Cons_right)
    then show ?thesis
      using False Cons by simp
  qed
qed

lemma strings_Replace_leftmost:
  "old \<noteq> [] \<Longrightarrow>
   (\<forall>a1 a2. a = a1 @ a2 \<and> a2 \<noteq> [] \<longrightarrow> \<not> strings_HasPrefix (a2 @ old @ b) old) \<Longrightarrow>
   strings_Replace (a @ old @ b) old = a @ strings_Replace b old"
proof (induction a)
  case Nil
  then obtain c cs where "old = c # cs"
    by (cases old) auto
  then show ?case
    by (simp add: strings_HasPrefix_def)
next
  case (Cons x a)
  have "\<not> strings_HasPrefix ((x # a) @ old @ b) old"
    using Cons.prems(2) by blast
  moreover have "\<forall>a1 a2. a = a1 @ a2 \<and> a2 \<noteq> [] \<longrightarrow> \<not> strings_HasPrefix (a2 @ old @ b) old"
    using Cons.prems(2) by (metis append_Cons)
  ultimately show ?case
    using Cons.IH Cons.prems(1) by simp
qed

subsection \<open>The key that verifies a token\<close>

lemma getjwk_first_key_only:
  "getjwk now (Inr (k0 # ks)) j = getjwk now (Inr [k0]) j"
  by (simp add: getjwk_def)

lemma getjwk_stale:
  "\<forall>t. lastChecked j = Some t \<longrightarrow> t + JWKCacheRefresh \<le> now \<Longrightarrow>
   getjwk now fetched j =
     (case fetched of
        Inl e \<Rightarrow> (Inl e, j)
      | Inr [] \<Rightarrow> (Inl NoJwksProvided, j)
      | Inr (k0 # ks) \<Rightarrow> (Inr (Some k0), j\<lparr>key := Some k0, lastChecked := Some now\<rparr>))"
  by (auto simp: getjwk_def split: option.splits sum.splits list.splits)

text \<open>
  Claim C1, as stated, fails. The registry publishes the keys 3 and 2; the token
  \<open>alice.jwt\<close> parses, is signed by the published key 2, carries the issuer \<open>infra\<close>, an
  expiry in the future and an email; still the proxy answers 401, because \<open>getjwk\<close>
  hands out the first key of the set only.
\<close>

theorem verification_single_key_counterexample:
  "ParseSigned ex_jose ''alice.jwt'' = Some ex_alice \<and>
   Claims ex_jose ex_alice (Some 2) \<noteq> None \<and>
   2 \<in> set [3, 2 :: nat] \<and>
   fst (Run_proxy ex_jose 5 (Inr [3, 2]) ''sa-token'' (ex_request ''Bearer alice.jwt'') ex_cache)
     = HttpError ''unauthorized'' 401"
  by (simp add: Run_proxy_def jwtMiddleware_def getjwk_def header_defs ex_engine_defs
      strings_HasPrefix_def StatusUnauthorized_def)

lemma getjwk_fresh:
  "lastChecked j = Some t \<Longrightarrow> now < t + JWKCacheRefresh \<Longrightarrow>
   getjwk now fetched j = (Inr (key j), j)"
  by (simp add: getjwk_def)

text \<open>
  Claim C1, amended: for every JWT presented to the engine proxy (a token that parses),
  verification tries exactly one key. While the cache is fresh, that is for
  \<open>JWKCacheRefresh\<close> after it was filled, the key is the cached one and nothing is
  fetched, whatever the registry publishes by then. Otherwise it is the first key of the
  JWKS fetched from the registry, which becomes the cached key; the keys published after
  the first are never tried. The answer of the proxy is decided by that one key: the token
  is refused with 401 when the key does not validate its signature, and it is handed to the
  proxy handler when the key validates it and its claims are valid and carry an email.
\<close>

theorem verification_uses_one_key:
  fixes lib :: "('tok, 'key, 'cl) jose" and j :: "'key jwkCache" and tok :: 'tok
    and now :: int and r :: Request and bearerToken :: string
  defines "decided_by \<equiv> \<lambda>k j'.
     (case Claims lib tok k of
        None \<Rightarrow> (HttpError ''unauthorized'' 401, j')
      | Some (cl, out) \<Rightarrow>
          if Validate lib cl ''infra'' now = Some ErrExpired then (HttpError ''expired'' 401, j')
          else if Validate lib cl ''infra'' now \<noteq> None then (HttpError ''unauthorized'' 401, j')
          else (case out ''email'' of
                  Some (JString email) \<Rightarrow>
                    (proxyHandler_func bearerToken (r\<lparr>ctx_email := Some email\<rparr>), j')
                | _ \<Rightarrow> (HttpError ''unauthorized'' 401, j')))"
  assumes "strings_Replace (Header_Get (Header r) ''X-Infra-Authorization'') ''Bearer '' = raw"
    and "raw \<noteq> []" and "ParseSigned lib raw = Some tok"
  shows
   "(\<forall>t fetched. lastChecked j = Some t \<and> now < t + JWKCacheRefresh \<longrightarrow>
       Run_proxy lib now fetched bearerToken r j = decided_by (key j) j)
  \<and> (\<forall>k0 ks. (\<forall>t. lastChecked j = Some t \<longrightarrow> t + JWKCacheRefresh \<le> now) \<longrightarrow>
       Run_proxy lib now (Inr (k0 # ks)) bearerToken r j
         = decided_by (Some k0) (j\<lparr>key := Some k0, lastChecked := Some now\<rparr>))"
proof (intro conjI allI impI)
  fix t fetched
  assume "lastChecked j = Some t \<and> now < t + JWKCacheRefresh"
  then have "getjwk now fetched j = (Inr (key j), j)"
    by (simp add: getjwk_fresh)
  then show "Run_proxy lib now fetched bearerToken r j = decided_by (key j) j"
    using assms(2-4) unfolding decided_by_def
    by (auto simp: Run_proxy_def jwtMiddleware_def StatusUnauthorized_def Let_def
        split: option.splits JSONValue.splits)
next
  fix k0 ks
  assume "\<forall>t. lastChecked j = Some t \<longrightarrow> t + JWKCacheRefresh \<le> now"
  from getjwk_stale[OF this, of "Inr (k0 # ks)"]
  have "getjwk now (Inr (k0 # ks)) j
          = (Inr (Some k0), j\<lparr>key := Some k0, lastChecked := Some now\<rparr>)"
    by simp
  then show "Run_proxy lib now (Inr (k0 # ks)) bearerToken r j
         = decided_by (Some k0) (j\<lparr>key := Some k0, lastChecked := Some now\<rparr>)"
    using assms(2-4) unfolding decided_by_def
    by (auto simp: Run_proxy_def jwtMiddleware_def StatusUnauthorized_def Let_def
        split: option.splits JSONValue.splits)
qed

text \<open>
  The amended claim at the token \<open>alice.jwt\<close>, signed by the key 2. With the empty
  cache and the registry publishing the keys 3 and 2, the one key tried is 3 and the answer
  is 401. With the cache filled with the key 2 five nanoseconds ago, the one key tried is 2
  and the request goes to the proxy handler, both when the registry now publishes the key 3
  only and when it cannot be reached.
\<close>

theorem verification_uses_one_key_witness:
  "Run_proxy ex_jose 5 (Inr [3, 2]) ''sa-token'' (ex_request ''Bearer alice.jwt'') ex_cache =
     (HttpError ''unauthorized'' 401, ex_cache\<lparr>key := Some 3, lastChecked := Some 5\<rparr>)
 \<and> Run_proxy ex_jose 5 (Inr [3]) ''sa-token'' (ex_request ''Bearer alice.jwt'') ex_filled_cache =
     (proxyHandler_func ''sa-token''
        ((ex_request ''Bearer alice.jwt'')\<lparr>ctx_email := Some ''alice@x''\<rparr>), ex_filled_cache)
 \<and> Run_proxy ex_jose 5 (Inl GetError) ''sa-token'' (ex_request ''Bearer alice.jwt'')
       ex_filled_cache =
     (proxyHandler_func ''sa-token''
        ((ex_request ''Bearer alice.jwt'')\<lparr>ctx_email := Some ''alice@x''\<rparr>), ex_filled_cache)"
proof -
  have raw: "strings_Replace
               (Header_Get (Header (ex_request ''Bearer alice.jwt'')) ''X-Infra-Authorization'')
               ''Bearer '' = ''alice.jwt''"
    by (simp add: ex_request_def header_defs strings_HasPrefix_def)
  have ne: "''alice.jwt'' \<noteq> []"
    by simp
  have parse: "ParseSigned ex_jose ''alice.jwt'' = Some ex_alice"
    by (simp add: ex_jose_def ex_tokens_def)
  have stale: "\<forall>t. lastChecked ex_cache = Some t \<longrightarrow> t + JWKCacheRefresh \<le> 5"
    by (simp add: ex_cache_def)
  have fresh: "lastChecked ex_filled_cache = Some 0 \<and> 5 < 0 + JWKCacheRefresh"
    by (simp add: ex_filled_cache_def JWKCacheRefresh_def)
  have cached: "key ex_filled_cache = Some 2"
    by (simp add: ex_filled_cache_def)
  have sig3: "Claims ex_jose ex_alice (Some 3) = None"
    by (simp add: ex_jose_def ex_alice_def)
  have sig2: "Claims ex_jose ex_alice (Some 2)
                = Some (ex_alice, \<lambda>c. if c = ''email'' then Some (JString ''alice@x'') else None)"
    by (simp add: ex_jose_def ex_alice_def fun_eq_iff)
  have valid: "Validate ex_jose ex_alice ''infra'' 5 = None"
    by (simp add: ex_jose_def ex_alice_def)
  note t = verification_uses_one_key[where lib = ex_jose and now = 5
      and bearerToken = "''sa-token''", OF raw ne parse]
  have w1: "Run_proxy ex_jose 5 (Inr [3, 2]) ''sa-token'' (ex_request ''Bearer alice.jwt'') ex_cache =
     (HttpError ''unauthorized'' 401, ex_cache\<lparr>key := Some 3, lastChecked := Some 5\<rparr>)"
    using t[of ex_cache, THEN conjunct2, THEN spec, THEN spec, of 3 "[2]"] stale
    by (simp add: sig3)
  have w2: "Run_proxy ex_jose 5 fetched ''sa-token'' (ex_request ''Bearer alice.jwt'') ex_filled_cache =
     (proxyHandler_func ''sa-token''
        ((ex_request ''Bearer alice.jwt'')\<lparr>ctx_email := Some ''alice@x''\<rparr>), ex_filled_cache)"
    for fetched
    using t[of ex_filled_cache, THEN conjunct1, THEN spec, THEN spec, of 0 fetched] fresh
    by (simp add: cached sig2 valid)
  from w1 w2[of "Inr [3]"] w2[of "Inl GetError"] show ?thesis
    by (intro conjI)
qed

subsection \<open>Every failed check ends in a 401\<close>

text \<open>
  Claim C5. The JWT check of the middleware fails closed. With \<open>raw\<close> the token taken
  from the header: a missing token, a token that does not parse, a failure to get the key
  (the JWKS could not be fetched, or it was empty: the last conjunct says that \<open>getjwk\<close>
  returns the error then), a signature that the key does not validate, a validation error
  other than expiry (a wrong issuer among them) and a missing email claim are each answered
  with 401 and the body \<open>unauthorized\<close>; an expired token is answered with 401 and the
  body \<open>expired\<close>; the next handler runs only when every check has passed.
\<close>

theorem jwtMiddleware_fails_closed:
  fixes lib :: "('tok, 'key, 'cl) jose"
  assumes raw: "raw = strings_Replace (Header_Get (Header r) ''X-Infra-Authorization'') ''Bearer ''"
  shows
   "(raw = [] \<longrightarrow>
       jwtMiddleware lib now getjwkf next r s = (HttpError ''unauthorized'' 401, s))
  \<and> (raw \<noteq> [] \<and> ParseSigned lib raw = None \<longrightarrow>
       jwtMiddleware lib now getjwkf next r s = (HttpError ''unauthorized'' 401, s))
  \<and> (\<forall>tok. raw \<noteq> [] \<and> ParseSigned lib raw = Some tok \<longrightarrow>
       (\<forall>e s'. getjwkf s = (Inl e, s') \<longrightarrow>
          jwtMiddleware lib now getjwkf next r s = (HttpError ''unauthorized'' 401, s'))
     \<and> (\<forall>k s'. getjwkf s = (Inr k, s') \<longrightarrow>
          (Claims lib tok k = None \<longrightarrow>
             jwtMiddleware lib now getjwkf next r s = (HttpError ''unauthorized'' 401, s'))
        \<and> (\<forall>cl out. Claims lib tok k = Some (cl, out) \<longrightarrow>
             (Validate lib cl ''infra'' now = Some ErrExpired \<longrightarrow>
                jwtMiddleware lib now getjwkf next r s = (HttpError ''expired'' 401, s'))
           \<and> (\<forall>e. Validate lib cl ''infra'' now = Some e \<and> e \<noteq> ErrExpired \<longrightarrow>
                jwtMiddleware lib now getjwkf next r s = (HttpError ''unauthorized'' 401, s'))
           \<and> (Validate lib cl ''infra'' now = None \<and>
               (\<forall>email. out ''email'' \<noteq> Some (JString email)) \<longrightarrow>
                jwtMiddleware lib now getjwkf next r s = (HttpError ''unauthorized'' 401, s'))
           \<and> (\<forall>email. Validate lib cl ''infra'' now = None \<and>
                  out ''email'' = Some (JString email) \<longrightarrow>
                jwtMiddleware lib now getjwkf next r s =
                  (next (r\<lparr>ctx_email := Some email\<rparr>), s')))))
  \<and> (\<forall>j e. (\<forall>t. lastChecked j = Some t \<longrightarrow> t + JWKCacheRefresh \<le> now) \<longrightarrow>
         getjwk now (Inl e) j = (Inl e, j) \<and>
         getjwk now (Inr []) j = (Inl NoJwksProvided, (j :: 'key jwkCache)))"
proof -
  have "\<forall>j e. (\<forall>t. lastChecked j = Some t \<longrightarrow> t + JWKCacheRefresh \<le> now) \<longrightarrow>
         getjwk now (Inl e) j = (Inl e, j) \<and>
         getjwk now (Inr []) j = (Inl NoJwksProvided, (j :: 'key jwkCache))"
    by (simp add: getjwk_stale)
  then show ?thesis
    unfolding jwtMiddleware_def raw StatusUnauthorized_def Let_def
    by (auto split: option.splits JSONValue.splits)
qed

text \<open>
  The theorem at eight requests: an expired token, a wrong issuer, no email claim, a
  signature by another key than the published one, a failed fetch of the JWKS, a token that
  does not parse, an empty token, and a valid token.
\<close>

theorem jwtMiddleware_fails_closed_witness:
  "jwtMiddleware ex_jose 50 (getjwk 50 (Inr [2])) (proxyHandler_func ''sa-token'')
     (ex_request ''Bearer old.jwt'') ex_cache
     = (HttpError ''expired'' 401, ex_cache\<lparr>key := Some 2, lastChecked := Some 50\<rparr>)
 \<and> jwtMiddleware ex_jose 50 (getjwk 50 (Inr [2])) (proxyHandler_func ''sa-token'')
     (ex_request ''Bearer other.jwt'') ex_cache
     = (HttpError ''unauthorized'' 401, ex_cache\<lparr>key := Some 2, lastChecked := Some 50\<rparr>)
 \<and> jwtMiddleware ex_jose 50 (getjwk 50 (Inr [2])) (proxyHandler_func ''sa-token'')
     (ex_request ''Bearer anon.jwt'') ex_cache
     = (HttpError ''unauthorized'' 401, ex_cache\<lparr>key := Some 2, lastChecked := Some 50\<rparr>)
 \<and> jwtMiddleware ex_jose 50 (getjwk 50 (Inr [3])) (proxyHandler_func ''sa-token'')
     (ex_request ''Bearer alice.jwt'') ex_cache
     = (HttpError ''unauthorized'' 401, ex_cache\<lparr>key := Some 3, lastChecked := Some 50\<rparr>)
 \<and> jwtMiddleware ex_jose 50 (getjwk 50 (Inl GetError)) (proxyHandler_func ''sa-token'')
     (ex_request ''Bearer alice.jwt'') ex_cache
     = (HttpError ''unauthorized'' 401, ex_cache)
 \<and> jwtMiddleware ex_jose 50 (getjwk 50 (Inr [2])) (proxyHandler_func ''sa-token'')
     (ex_request ''Bearer garbage'') ex_cache
     = (HttpError ''unauthorized'' 401, ex_cache)
 \<and> jwtMiddleware ex_jose 50 (getjwk 50 (Inr [2])) (proxyHandler_func ''sa-token'')
     (ex_request ''Bearer '') ex_cache
     = (HttpError ''unauthorized'' 401, ex_cache)
 \<and> jwtMiddleware ex_jose 50 (getjwk 50 (Inr [2])) (proxyHandler_func ''sa-token'')
     (ex_request ''Bearer alice.jwt'') ex_cache
     = (proxyHandler_func ''sa-token'' ((ex_request ''Bearer alice.jwt'')\<lparr>ctx_email := Some ''alice@x''\<rparr>),
        ex_cache\<lparr>key := Some 2, lastChecked := Some 50\<rparr>)"
proof -
  have raws:
    "''old.jwt'' = strings_Replace (Header_Get (Header (ex_request ''Bearer old.jwt'')) ''X-Infra-Authorization'') ''Bearer ''"
    "''other.jwt'' = strings_Replace (Header_Get (Header (ex_request ''Bearer other.jwt'')) ''X-Infra-Authorization'') ''Bearer ''"
    "''anon.jwt'' = strings_Replace (Header_Get (Header (ex_request ''Bearer anon.jwt'')) ''X-Infra-Authorization'') ''Bearer ''"
    "''alice.jwt'' = strings_Replace (Header_Get (Header (ex_request ''Bearer alice.jwt'')) ''X-Infra-Authorization'') ''Bearer ''"
    "''garbage'' = strings_Replace (Header_Get (Header (ex_request ''Bearer garbage'')) ''X-Infra-Authorization'') ''Bearer ''"
    "[] = strings_Replace (Header_Get (Header (ex_request ''Bearer '')) ''X-Infra-Authorization'') ''Bearer ''"
    by (simp_all add: ex_request_def header_defs strings_HasPrefix_def)
  have parses:
    "ParseSigned ex_jose ''old.jwt'' = Some (ex_alice\<lparr>exp := 10\<rparr>)"
    "ParseSigned ex_jose ''other.jwt'' = Some (ex_alice\<lparr>iss := ''other''\<rparr>)"
    "ParseSigned ex_jose ''anon.jwt'' = Some (ex_alice\<lparr>email_claim := None\<rparr>)"
    "ParseSigned ex_jose ''alice.jwt'' = Some ex_alice"
    "ParseSigned ex_jose ''garbage'' = None"
    by (simp_all add: ex_jose_def ex_tokens_def)
  have keys:
    "getjwk 50 (Inr [2]) ex_cache = (Inr (Some (2::nat)), ex_cache\<lparr>key := Some 2, lastChecked := Some 50\<rparr>)"
    "getjwk 50 (Inr [3]) ex_cache = (Inr (Some (3::nat)), ex_cache\<lparr>key := Some 3, lastChecked := Some 50\<rparr>)"
    "getjwk 50 (Inl GetError) ex_cache = (Inl GetError, ex_cache)"
    by (simp_all add: getjwk_def ex_cache_def)
  have claims:
    "Claims ex_jose (ex_alice\<lparr>exp := 10\<rparr>) (Some 2)
       = Some (ex_alice\<lparr>exp := 10\<rparr>, \<lambda>c. if c = ''email'' then Some (JString ''alice@x'') else None)"
    "Claims ex_jose (ex_alice\<lparr>iss := ''other''\<rparr>) (Some 2)
       = Some (ex_alice\<lparr>iss := ''other''\<rparr>, \<lambda>c. if c = ''email'' then Some (JString ''alice@x'') else None)"
    "Claims ex_jose (ex_alice\<lparr>email_claim := None\<rparr>) (Some 2)
       = Some (ex_alice\<lparr>email_claim := None\<rparr>, \<lambda>c. None)"
    "Claims ex_jose ex_alice (Some 2)
       = Some (ex_alice, \<lambda>c. if c = ''email'' then Some (JString ''alice@x'') else None)"
    "Claims ex_jose ex_alice (Some 3) = None"
    by (simp_all add: ex_jose_def ex_alice_def fun_eq_iff)
  have valid:
    "Validate ex_jose (ex_alice\<lparr>exp := 10\<rparr>) ''infra'' 50 = Some ErrExpired"
    "Validate ex_jose (ex_alice\<lparr>iss := ''other''\<rparr>) ''infra'' 50 = Some ErrInvalidIssuer"
    "Validate ex_jose (ex_alice\<lparr>email_claim := None\<rparr>) ''infra'' 50 = None"
    "Validate ex_jose ex_alice ''infra'' 50 = None"
    by (simp_all add: ex_jose_def ex_alice_def)
  note t = jwtMiddleware_fails_closed[where lib = ex_jose and now = 50 and s = ex_cache
      and ?next = "proxyHandler_func ''sa-token''"]
  show ?thesis
    using t[OF raws(1), of "getjwk 50 (Inr [2])"]
      t[OF raws(2), of "getjwk 50 (Inr [2])"]
      t[OF raws(3), of "getjwk 50 (Inr [2])"]
      t[OF raws(4), of "getjwk 50 (Inr [3])"]
      t[OF raws(4), of "getjwk 50 (Inl GetError)"]
      t[OF raws(5), of "getjwk 50 (Inr [2])"]
      t[OF raws(6), of "getjwk 50 (Inr [2])"]
      t[OF raws(4), of "getjwk 50 (Inr [2])"]
    by (simp add: parses keys claims valid)
qed

subsection \<open>How the token is taken from the header\<close>

text \<open>
  Claim C10. The token \<open>raw\<close> is the value of the header \<^verbatim>\<open>X-Infra-Authorization\<close>
  with every occurrence of \<^verbatim>\<open>"Bearer "\<close> deleted, from left to right, and it is this
  token that is parsed and validated:
  \<^item> a value in which \<^verbatim>\<open>"Bearer "\<close> does not occur (a bare JWT) is taken as it is;
  \<^item> a value in which it occurs is altered (the token is shorter than the value), and up to
    and including the leftmost occurrence the token is what stood before that occurrence;
  \<^item> a missing or empty header gives the empty token, and the empty token is answered
    with 401;
  \<^item> a token that is not empty is what \<^verbatim>\<open>ParseSigned\<close> is given: when it does not parse
    the answer is 401; when it parses, the key validates its signature and its claims are
    valid and carry an email, the request is accepted and handed to the next handler with
    that email; when the key does not validate it, or its claims are not valid, the answer
    is 401;
  \<^item> the verdict, and the email handed on, depend on the request through the token only, so
    a bare JWT is parsed and validated exactly as the same JWT behind the prefix is.
\<close>

theorem token_extracted_by_deleting_Bearer:
  fixes lib :: "('tok, 'key, 'cl) jose"
  assumes auth: "authorization = Header_Get (Header r) ''X-Infra-Authorization''"
    and raw: "raw = strings_Replace authorization ''Bearer ''"
  shows
   "(\<not> sublist ''Bearer '' authorization \<longrightarrow> raw = authorization)
  \<and> (sublist ''Bearer '' authorization \<longrightarrow> length raw < length authorization)
  \<and> (\<forall>a b. authorization = a @ ''Bearer '' @ b \<and>
            (\<forall>a1 a2. a = a1 @ a2 \<and> a2 \<noteq> [] \<longrightarrow>
                     \<not> strings_HasPrefix (a2 @ ''Bearer '' @ b) ''Bearer '') \<longrightarrow>
          raw = a @ strings_Replace b ''Bearer '')
  \<and> (Header r ''X-Infra-Authorization'' = None \<or> authorization = [] \<longrightarrow> raw = [])
  \<and> (raw = [] \<longrightarrow>
       jwtMiddleware lib now getjwkf next r s = (HttpError ''unauthorized'' 401, s))
  \<and> (raw \<noteq> [] \<and> ParseSigned lib raw = None \<longrightarrow>
       jwtMiddleware lib now getjwkf next r s = (HttpError ''unauthorized'' 401, s))
  \<and> (\<forall>tok k s' cl out email.
        raw \<noteq> [] \<and> ParseSigned lib raw = Some tok \<and> getjwkf s = (Inr k, s') \<and>
        Claims lib tok k = Some (cl, out) \<and> Validate lib cl ''infra'' now = None \<and>
        out ''email'' = Some (JString email) \<longrightarrow>
       jwtMiddleware lib now getjwkf next r s = (next (r\<lparr>ctx_email := Some email\<rparr>), s'))
  \<and> (\<forall>tok k s'.
        raw \<noteq> [] \<and> ParseSigned lib raw = Some tok \<and> getjwkf s = (Inr k, s') \<and>
        Claims lib tok k = None \<longrightarrow>
       jwtMiddleware lib now getjwkf next r s = (HttpError ''unauthorized'' 401, s'))
  \<and> (\<forall>tok k s' cl out e.
        raw \<noteq> [] \<and> ParseSigned lib raw = Some tok \<and> getjwkf s = (Inr k, s') \<and>
        Claims lib tok k = Some (cl, out) \<and> Validate lib cl ''infra'' now = Some e \<longrightarrow>
       jwtMiddleware lib now getjwkf next r s
         = (HttpError (if e = ErrExpired then ''expired'' else ''unauthorized'') 401, s'))
  \<and> (\<forall>r'. strings_Replace (Header_Get (Header r') ''X-Infra-Authorization'') ''Bearer '' = raw \<longrightarrow>
          jwtMiddleware lib now getjwkf (\<lambda>q. f (ctx_email q)) r' s
            = jwtMiddleware lib now getjwkf (\<lambda>q. f (ctx_email q)) r s)"
proof -
  have c1: "\<not> sublist ''Bearer '' authorization \<longrightarrow> raw = authorization"
    by (simp add: raw strings_Replace_absent)
  have c2: "sublist ''Bearer '' authorization \<longrightarrow> length raw < length authorization"
    by (simp add: raw strings_Replace_shorter)
  have c3: "\<forall>a b. authorization = a @ ''Bearer '' @ b \<and>
            (\<forall>a1 a2. a = a1 @ a2 \<and> a2 \<noteq> [] \<longrightarrow>
                     \<not> strings_HasPrefix (a2 @ ''Bearer '' @ b) ''Bearer '') \<longrightarrow>
          raw = a @ strings_Replace b ''Bearer ''"
    using strings_Replace_leftmost[of "''Bearer ''"] unfolding raw by blast
  have c4: "Header r ''X-Infra-Authorization'' = None \<or> authorization = [] \<longrightarrow> raw = []"
    by (auto simp: raw auth Header_Get_def)
  have c5: "raw = [] \<longrightarrow>
       jwtMiddleware lib now getjwkf next r s = (HttpError ''unauthorized'' 401, s)"
    by (simp add: jwtMiddleware_def raw auth StatusUnauthorized_def)
  have c6: "raw \<noteq> [] \<and> ParseSigned lib raw = None \<longrightarrow>
       jwtMiddleware lib now getjwkf next r s = (HttpError ''unauthorized'' 401, s)"
    by (simp add: jwtMiddleware_def raw auth StatusUnauthorized_def)
  have c7: "\<forall>tok k s' cl out email.
        raw \<noteq> [] \<and> ParseSigned lib raw = Some tok \<and> getjwkf s = (Inr k, s') \<and>
        Claims lib tok k = Some (cl, out) \<and> Validate lib cl ''infra'' now = None \<and>
        out ''email'' = Some (JString email) \<longrightarrow>
       jwtMiddleware lib now getjwkf next r s = (next (r\<lparr>ctx_email := Some email\<rparr>), s')"
    by (simp add: jwtMiddleware_def raw auth)
  have c8: "\<forall>tok k s'.
        raw \<noteq> [] \<and> ParseSigned lib raw = Some tok \<and> getjwkf s = (Inr k, s') \<and>
        Claims lib tok k = None \<longrightarrow>
       jwtMiddleware lib now getjwkf next r s = (HttpError ''unauthorized'' 401, s')"
    by (simp add: jwtMiddleware_def raw auth StatusUnauthorized_def)
  have c9: "\<forall>tok k s' cl out e.
        raw \<noteq> [] \<and> ParseSigned lib raw = Some tok \<and> getjwkf s = (Inr k, s') \<and>
        Claims lib tok k = Some (cl, out) \<and> Validate lib cl ''infra'' now = Some e \<longrightarrow>
       jwtMiddleware lib now getjwkf next r s
         = (HttpError (if e = ErrExpired then ''expired'' else ''unauthorized'') 401, s')"
    by (simp add: jwtMiddleware_def raw auth StatusUnauthorized_def)
  have c10: "\<forall>r'. strings_Replace (Header_Get (Header r') ''X-Infra-Authorization'') ''Bearer '' = raw \<longrightarrow>
          jwtMiddleware lib now getjwkf (\<lambda>q. f (ctx_email q)) r' s
            = jwtMiddleware lib now getjwkf (\<lambda>q. f (ctx_email q)) r s"
    by (auto simp: jwtMiddleware_def raw auth Let_def
        split: option.splits JSONValue.splits sum.splits prod.splits)
  from c1 c2 c3 c4 c5 c6 c7 c8 c9 c10 show ?thesis
    by (intro conjI)
qed

text \<open>
  The theorem at six header values, with the key 2 published and a next handler that
  answers with the email it is given: the bare token of alice and the same token behind
  the prefix are both accepted for alice; a value with the word inside, which does not
  parse as it is, is altered into the token of alice and accepted; the bare token is
  refused when the published key is 3; the value that is just the word gives the empty
  token and is refused, although the library would parse the value itself; the empty value
  is refused.
\<close>

theorem token_extracted_by_deleting_Bearer_witness:
  "jwtMiddleware ex_jose 50 (getjwk 50 (Inr [2])) (\<lambda>q. ex_echo (ctx_email q))
      (ex_request ''alice.jwt'') ex_cache
     = (ex_echo (Some ''alice@x''), ex_cache\<lparr>key := Some 2, lastChecked := Some 50\<rparr>)
 \<and> jwtMiddleware ex_jose 50 (getjwk 50 (Inr [2])) (\<lambda>q. ex_echo (ctx_email q))
      (ex_request ''Bearer alice.jwt'') ex_cache
     = (ex_echo (Some ''alice@x''), ex_cache\<lparr>key := Some 2, lastChecked := Some 50\<rparr>)
 \<and> ParseSigned ex_jose ''aliBearer ce.jwt'' = None
 \<and> jwtMiddleware ex_jose 50 (getjwk 50 (Inr [2])) (\<lambda>q. ex_echo (ctx_email q))
      (ex_request ''aliBearer ce.jwt'') ex_cache
     = (ex_echo (Some ''alice@x''), ex_cache\<lparr>key := Some 2, lastChecked := Some 50\<rparr>)
 \<and> jwtMiddleware ex_jose 50 (getjwk 50 (Inr [3])) (\<lambda>q. ex_echo (ctx_email q))
      (ex_request ''alice.jwt'') ex_cache
     = (HttpError ''unauthorized'' 401, ex_cache\<lparr>key := Some 3, lastChecked := Some 50\<rparr>)
 \<and> ParseSigned ex_jose ''Bearer '' = Some ex_alice
 \<and> jwtMiddleware ex_jose 50 (getjwk 50 (Inr [2])) (\<lambda>q. ex_echo (ctx_email q))
      (ex_request ''Bearer '') ex_cache
     = (HttpError ''unauthorized'' 401, ex_cache)
 \<and> jwtMiddleware ex_jose 50 (getjwk 50 (Inr [2])) (\<lambda>q. ex_echo (ctx_email q))
      (ex_request []) ex_cache
     = (HttpError ''unauthorized'' 401, ex_cache)"
proof -
  have get: "\<And>v. v = Header_Get (Header (ex_request v)) ''X-Infra-Authorization''"
    by (simp add: ex_request_def Header_Get_def split: list.splits)
  have raws: "strings_Replace ''alice.jwt'' ''Bearer '' = ''alice.jwt''"
    "strings_Replace ''Bearer alice.jwt'' ''Bearer '' = ''alice.jwt''"
    "strings_Replace ''aliBearer ce.jwt'' ''Bearer '' = ''alice.jwt''"
    "strings_Replace ''Bearer '' ''Bearer '' = []"
    "strings_Replace [] ''Bearer '' = []"
    by (simp_all add: strings_HasPrefix_def)
  have parse: "ParseSigned ex_jose ''alice.jwt'' = Some ex_alice"
    "ParseSigned ex_jose ''aliBearer ce.jwt'' = None"
    "ParseSigned ex_jose ''Bearer '' = Some ex_alice"
    by (simp_all add: ex_jose_def ex_tokens_def)
  have keys:
    "getjwk 50 (Inr [2]) ex_cache
       = (Inr (Some (2::nat)), ex_cache\<lparr>key := Some 2, lastChecked := Some 50\<rparr>)"
    "getjwk 50 (Inr [3]) ex_cache
       = (Inr (Some (3::nat)), ex_cache\<lparr>key := Some 3, lastChecked := Some 50\<rparr>)"
    by (simp_all add: getjwk_def ex_cache_def)
  have sig2: "Claims ex_jose ex_alice (Some 2)
                = Some (ex_alice, \<lambda>c. if c = ''email'' then Some (JString ''alice@x'') else None)"
    by (simp add: ex_jose_def ex_alice_def fun_eq_iff)
  have sig3: "Claims ex_jose ex_alice (Some 3) = None"
    by (simp add: ex_jose_def ex_alice_def)
  have valid: "Validate ex_jose ex_alice ''infra'' 50 = None"
    by (simp add: ex_jose_def ex_alice_def)
  note t = token_extracted_by_deleting_Bearer[where lib = ex_jose and now = 50 and s = ex_cache
      and ?next = "\<lambda>q. ex_echo (ctx_email q)" and f = ex_echo, OF get refl]
  have accepted: "jwtMiddleware ex_jose 50 (getjwk 50 (Inr [2])) (\<lambda>q. ex_echo (ctx_email q))
      (ex_request v) ex_cache
     = (ex_echo (Some ''alice@x''), ex_cache\<lparr>key := Some 2, lastChecked := Some 50\<rparr>)"
    if "strings_Replace v ''Bearer '' = ''alice.jwt''" for v
    using t[of v "getjwk 50 (Inr [2])", THEN conjunct2, THEN conjunct2, THEN conjunct2,
        THEN conjunct2, THEN conjunct2, THEN conjunct2, THEN conjunct1, rule_format,
        where tok = ex_alice and k = "Some 2"
        and s' = "ex_cache\<lparr>key := Some 2, lastChecked := Some 50\<rparr>" and cl = ex_alice
        and out = "\<lambda>c. if c = ''email'' then Some (JString ''alice@x'') else None"
        and email = "''alice@x''"]
      that parse(1) keys(1) sig2 valid
    by simp
  have refused: "jwtMiddleware ex_jose 50 (getjwk 50 (Inr [3])) (\<lambda>q. ex_echo (ctx_email q))
      (ex_request ''alice.jwt'') ex_cache
     = (HttpError ''unauthorized'' 401, ex_cache\<lparr>key := Some 3, lastChecked := Some 50\<rparr>)"
    using t[of "''alice.jwt''" "getjwk 50 (Inr [3])", THEN conjunct2, THEN conjunct2,
        THEN conjunct2, THEN conjunct2, THEN conjunct2, THEN conjunct2, THEN conjunct2,
        THEN conjunct1, rule_format, where tok = ex_alice and k = "Some 3"
        and s' = "ex_cache\<lparr>key := Some 3, lastChecked := Some 50\<rparr>"]
      raws(1) parse(1) keys(2) sig3
    by simp
  have empty: "jwtMiddleware ex_jose 50 (getjwk 50 (Inr [2])) (\<lambda>q. ex_echo (ctx_email q))
      (ex_request v) ex_cache = (HttpError ''unauthorized'' 401, ex_cache)"
    if "strings_Replace v ''Bearer '' = []" for v
    using t[of v "getjwk 50 (Inr [2])", THEN conjunct2, THEN conjunct2, THEN conjunct2,
        THEN conjunct2, THEN conjunct1] that
    by simp
  from accepted[OF raws(1)] accepted[OF raws(2)] parse(2) accepted[OF raws(3)] refused parse(3)
    empty[OF raws(4)] empty[OF raws(5)]
  show ?thesis
    by (intro conjI)
qed

subsection \<open>What the proxy handler sends upstream\<close>

lemma proxyHandler_func_rewrites:
  assumes "ctx_email r = Some email" and "strings_HasPrefix (URL_Path r) ''/proxy''"
    and "URL_RawPath r = [] \<or> strings_HasPrefix (URL_RawPath r) ''/proxy''"
  shows "\<exists>r'. proxyHandler_func bearerToken r = ReverseProxy r' \<and>
           Header r' ''Impersonate-User'' = Some [email] \<and>
           Header r' ''X-Infra-Authorization'' = None \<and>
           Header r' ''Authorization''
             = Some (Header_Values (Header r) ''Authorization'' @ [''Bearer '' @ bearerToken]) \<and>
           URL_RawQuery r' =
             (if Header_Get (Header r) ''X-Infra-Query'' \<noteq> []
              then Header_Get (Header r) ''X-Infra-Query'' else URL_RawQuery r) \<and>
           URL_Path r' = drop (length ''/proxy'') (URL_Path r)"
proof -
  have "URL_Path r \<noteq> []"
    using assms(2) by (auto simp: strings_HasPrefix_def)
  then have p: "length (URL_Path r) - length ''/proxy'' < length (URL_Path r)"
    by (cases "URL_Path r") simp_all
  have rp: "URL_RawPath r = [] \<or>
            length (URL_RawPath r) - length ''/proxy'' < length (URL_RawPath r)"
    by (cases "URL_RawPath r") simp_all
  have "StripPrefix ''/proxy'' ReverseProxy q =
          ReverseProxy (q\<lparr>URL_Path := drop (length ''/proxy'') (URL_Path r),
                          URL_RawPath := strings_TrimPrefix (URL_RawPath r) ''/proxy''\<rparr>)"
    if "URL_Path q = URL_Path r" and "URL_RawPath q = URL_RawPath r" for q
    using assms(2,3) p rp that
    by (auto simp: StripPrefix_def strings_TrimPrefix_def Let_def)
  then show ?thesis
    using assms(1)
    by (simp add: proxyHandler_func_def header_defs Let_def)
qed

text \<open>
  A request whose raw path does not start with the prefix is answered with 404, whatever its
  decoded path.
\<close>

lemma proxyHandler_func_raw_path_without_prefix:
  assumes "ctx_email r = Some email" and "URL_RawPath r \<noteq> []"
    and "\<not> strings_HasPrefix (URL_RawPath r) ''/proxy''"
  shows "proxyHandler_func bearerToken r = HttpError ''404 page not found'' 404"
  using assms
  by (simp add: proxyHandler_func_def StripPrefix_def strings_TrimPrefix_def StatusNotFound_def
      Let_def)

lemma proxyHandler_func_without_email:
  "ctx_email r = None \<Longrightarrow> proxyHandler_func bearerToken r = HttpError ''unauthorized'' 401"
  by (simp add: proxyHandler_func_def StatusUnauthorized_def Let_def)

text \<open>
  Claim C4 fails on the code at an inbound request that carries a valid JWT and an
  \<^verbatim>\<open>Authorization\<close> header of its own: the handler appends the engine's token with \<^verbatim>\<open>Header.Add\<close>
  instead of replacing the header, so the request handed to the reverse proxy carries the
  client's value first and the engine's bearer token second, and \<^verbatim>\<open>Header.Get\<close>
  reads the client's value. The rest of the claim holds there: \<^verbatim>\<open>Impersonate-User\<close> is
  the email and \<^verbatim>\<open>X-Infra-Authorization\<close> is gone.
\<close>

theorem proxyHandler_keeps_inbound_Authorization:
  "Header ex_inbound ''Authorization'' = Some [''Bearer client-token''] \<and>
   (case fst (Run_proxy ex_jose 50 (Inr [2]) ''sa-token'' ex_inbound ex_cache) of
      ReverseProxy r' \<Rightarrow>
        Header r' ''Authorization'' = Some [''Bearer client-token'', ''Bearer sa-token''] \<and>
        Header_Get (Header r') ''Authorization'' = ''Bearer client-token'' \<and>
        Header r' ''Impersonate-User'' = Some [''alice@x''] \<and>
        Header r' ''X-Infra-Authorization'' = None
    | HttpError msg code \<Rightarrow> False)"
  by (simp add: Run_proxy_def jwtMiddleware_def getjwk_def proxyHandler_func_def StripPrefix_def
      strings_TrimPrefix_def header_defs Let_def ex_engine_defs strings_HasPrefix_def)

section \<open>Properties of the reconciler tick\<close>

text \<open>
  A failure of one of the other steps prints the error and returns (shown for the steps that
  run when the options give the endpoint and the name).
\<close>

lemma tick_failures_that_return:
  "k8s_CA env = Inl e \<Longrightarrow> tick ep nm env = Returned [e] None"
  "k8s_CA env = Inr ca \<Longrightarrow> k8s_Namespace env = Inl e \<Longrightarrow> ep \<noteq> [] \<Longrightarrow>
     tick ep nm env = Returned [e] None"
  "k8s_CA env = Inr ca \<Longrightarrow> k8s_Namespace env = Inr ns \<Longrightarrow> k8s_SaToken env = Inl e \<Longrightarrow>
     ep \<noteq> [] \<Longrightarrow> nm \<noteq> [] \<Longrightarrow> tick ep nm env = Returned [e] None"
  "k8s_CA env = Inr ca \<Longrightarrow> k8s_Namespace env = Inr ns \<Longrightarrow> k8s_SaToken env = Inr sa \<Longrightarrow>
     ep \<noteq> [] \<Longrightarrow> nm \<noteq> [] \<Longrightarrow>
     client_CreateDestination env
       \<lparr>req_Name = nm, Kubernetes = \<lparr>Ca = ca, Endpoint = ep, Namespace = ns, SaToken = sa\<rparr>\<rparr>
       = (res, Some e) \<Longrightarrow>
     tick ep nm env = Returned [e] None"
  by (simp_all add: tick_def split: option.splits)

lemma tick_UpdateRoles_failure_returns:
  "k8s_CA env = Inr ca \<Longrightarrow> k8s_Namespace env = Inr ns \<Longrightarrow> k8s_SaToken env = Inr sa \<Longrightarrow>
   ep \<noteq> [] \<Longrightarrow> nm \<noteq> [] \<Longrightarrow>
   client_CreateDestination env
     \<lparr>req_Name = nm, Kubernetes = \<lparr>Ca = ca, Endpoint = ep, Namespace = ns, SaToken = sa\<rparr>\<rparr>
     = (Some res, None) \<Longrightarrow>
   client_ListRoles env (Id res) = (Some rr, None) \<Longrightarrow>
   k8s_UpdateRoles env (role_bindings (Roles rr)) = Some e \<Longrightarrow>
   tick ep nm env = Returned [e] None"
  by (simp add: tick_def)

lemma tick_ListRoles_failure:
  "k8s_CA env = Inr ca \<Longrightarrow> k8s_Namespace env = Inr ns \<Longrightarrow> k8s_SaToken env = Inr sa \<Longrightarrow>
   ep \<noteq> [] \<Longrightarrow> nm \<noteq> [] \<Longrightarrow>
   client_CreateDestination env
     \<lparr>req_Name = nm, Kubernetes = \<lparr>Ca = ca, Endpoint = ep, Namespace = ns, SaToken = sa\<rparr>\<rparr>
     = (Some res, None) \<Longrightarrow>
   client_ListRoles env (Id res) = (None, Some e) \<Longrightarrow>
   tick ep nm env = Panic_nil_dereference [e]"
  by (simp add: tick_def)

text \<open>
  Claim C6 fails on the code when \<^verbatim>\<open>ListRoles\<close> fails: the error is printed, but the
  callback does not return as it does after every other failed step; it goes on to read
  \<^verbatim>\<open>rolesRes.Roles\<close> of the nil response and the tick ends in a panic.
\<close>

theorem tick_ListRoles_failure_panics:
  "client_ListRoles ex_env ''d1'' = (None, Some ''rpc error: registry unavailable'') \<and>
   tick [] [] ex_env = Panic_nil_dereference [''rpc error: registry unavailable'']"
  by (simp add: tick_def ex_env_def)


section \<open>Properties of the store\<close>

lemmas ex_store_defs = ex_deps_def ex_grant_def ex_key_def ex_tx_def ex_opts_def

subsection \<open>What a query returns\<close>

lemma set_matching:
  "set (matching conds rows) = {g \<in> set rows. \<forall>c \<in> set conds. holds c g}"
  by (auto simp: matching_def list_all_iff)

lemma matching_filter:
  "matching conds rows = filter (\<lambda>g. list_all (\<lambda>c. holds c g) conds) rows"
  by (simp add: matching_def)

lemma set_limit_offset:
  "set (limit_offset lim rows) \<subseteq> set rows"
  by (auto simp: limit_offset_def split: option.splits dest: in_set_takeD in_set_dropD)

lemma ListGrants_filters_holds:
  "list_all (\<lambda>c. holds c g) (ListGrants_filters opts) \<longleftrightarrow>
     (ByPrivileges opts = [] \<or> Privilege g \<in> set (ByPrivileges opts)) \<and>
     (ByResource opts = [] \<or> Resource g = ByResource opts) \<and>
     (ByDestination opts = [] \<or> Resource g = ByDestination opts \<or>
        sql_like (ByDestination opts @ ''.%'') (Resource g)) \<and>
     (ExcludeConnectorGrant opts \<longrightarrow> \<not> (Privilege g = ''connector'' \<and> Resource g = ''infra''))"
  by (auto simp: ListGrants_filters_def)

lemma ListGrants_rows:
  assumes "status tx \<noteq> Aborted" and "ListGrants_subject d tx opts = Inr sc"
  shows "result (ListGrants d tx opts) =
           limit_offset (case Pagination opts of None \<Rightarrow> None | Some p \<Rightarrow> PaginateQuery d p)
             (sort_key ID
               (matching ([DeletedAtIsNull, OrganizationIdEq (tx_OrganizationID tx)]
                          @ sc @ ListGrants_filters opts) (grants tx)))"
  using assms
  by (simp add: ListGrants_def Query_grants_def split: prod.splits)

lemma ListGrants_early_error:
  "ListGrants_subject d tx opts = Inl e \<Longrightarrow>
   ListGrants d tx opts = \<lparr>result = [], err = Some e, max_update_index = None\<rparr>"
  by (simp add: ListGrants_def)

lemma ListGrants_aborted:
  "status tx = Aborted \<Longrightarrow> result (ListGrants d tx opts) = []"
  by (simp add: ListGrants_def Query_grants_def split: sum.splits)

text \<open>
  Without a subject the flag \<open>IncludeInheritedFromGroups\<close> is not looked at: no clause on
  the subject is added and no error is raised.
\<close>

lemma ListGrants_flag_without_subject:
  "BySubject opts = [] \<Longrightarrow> ListGrants_subject d tx opts = Inr []"
  by (simp add: ListGrants_subject_def)

text \<open>
  Claim C9. With a subject \<open>u\<close> and a usable transaction (and, when the call is
  paginated, within the window of the page):
  \<^item> without \<open>IncludeInheritedFromGroups\<close>, \<^verbatim>\<open>ListGrants\<close> returns, ordered by id, the
    live grants of the organization whose subject is exactly \<open>u\<close> and that pass the
    other filters (privileges, resource, destination, connector exclusion);
  \<^item> with it, and \<open>u\<close> a user id whose groups are \<open>groupIDs\<close>, it returns the live
    grants of the organization whose subject is \<open>u\<close> or the polymorphic id of one of
    those groups, restricted by the same filters;
  \<^item> with it, and \<open>u\<close> not a user id, it returns the error and no rows.
\<close>

theorem ListGrants_inherited_from_groups:
  fixes opts :: ListGrantsOptions and tx :: Txn and d :: deps
  defines "other_filters \<equiv> \<lambda>g.
     (ByPrivileges opts = [] \<or> Privilege g \<in> set (ByPrivileges opts)) \<and>
     (ByResource opts = [] \<or> Resource g = ByResource opts) \<and>
     (ByDestination opts = [] \<or> Resource g = ByDestination opts \<or>
        sql_like (ByDestination opts @ ''.%'') (Resource g)) \<and>
     (ExcludeConnectorGrant opts \<longrightarrow> \<not> (Privilege g = ''connector'' \<and> Resource g = ''infra''))"
    and "page \<equiv> limit_offset (case Pagination opts of None \<Rightarrow> None | Some p \<Rightarrow> PaginateQuery d p)"
  assumes "status tx \<noteq> Aborted" and "BySubject opts = u" and "u \<noteq> []"
  shows
   "(\<not> IncludeInheritedFromGroups opts \<longrightarrow>
       result (ListGrants d tx opts) =
         page (sort_key ID
                 (filter (\<lambda>g. DeletedAt g = None \<and> OrganizationID g = tx_OrganizationID tx \<and>
                               Subject g = u \<and> other_filters g) (grants tx))))
  \<and> (\<forall>userID groupIDs.
        IncludeInheritedFromGroups opts \<and> PolymorphicID_ID d u = Some userID \<and>
        PolymorphicID_IsIdentity d u \<and> groupIDsForUser d tx userID = Inr groupIDs \<longrightarrow>
       result (ListGrants d tx opts) =
         page (sort_key ID
                 (filter (\<lambda>g. DeletedAt g = None \<and> OrganizationID g = tx_OrganizationID tx \<and>
                               (Subject g = u \<or>
                                Subject g \<in> NewGroupPolymorphicID d ` set groupIDs) \<and>
                               other_filters g) (grants tx))))
  \<and> (IncludeInheritedFromGroups opts \<and>
       (PolymorphicID_ID d u = None \<or> \<not> PolymorphicID_IsIdentity d u) \<longrightarrow>
       ListGrants d tx opts =
         \<lparr>result = [],
          err = Some (Errorf ''IncludeInheritedFromGroups requires a userId subject''),
          max_update_index = None\<rparr>)"
proof (intro conjI allI impI)
  have filters: "\<And>g. list_all (\<lambda>c. holds c g) (ListGrants_filters opts) = other_filters g"
    unfolding other_filters_def by (rule ListGrants_filters_holds)
  {
    assume "\<not> IncludeInheritedFromGroups opts"
    then have "ListGrants_subject d tx opts = Inr [SubjectEq u]"
      using assms(4,5) by (simp add: ListGrants_subject_def)
    from ListGrants_rows[OF assms(3) this] show
      "result (ListGrants d tx opts) =
         page (sort_key ID
                 (filter (\<lambda>g. DeletedAt g = None \<and> OrganizationID g = tx_OrganizationID tx \<and>
                               Subject g = u \<and> other_filters g) (grants tx)))"
      by (simp add: page_def matching_filter filters)
  }
  {
    fix userID groupIDs
    assume "IncludeInheritedFromGroups opts \<and> PolymorphicID_ID d u = Some userID \<and>
        PolymorphicID_IsIdentity d u \<and> groupIDsForUser d tx userID = Inr groupIDs"
    then have "ListGrants_subject d tx opts
                 = Inr [SubjectIn (u # map (NewGroupPolymorphicID d) groupIDs)]"
      using assms(4,5) by (simp add: ListGrants_subject_def)
    from ListGrants_rows[OF assms(3) this] show
      "result (ListGrants d tx opts) =
         page (sort_key ID
                 (filter (\<lambda>g. DeletedAt g = None \<and> OrganizationID g = tx_OrganizationID tx \<and>
                               (Subject g = u \<or>
                                Subject g \<in> NewGroupPolymorphicID d ` set groupIDs) \<and>
                               other_filters g) (grants tx)))"
      by (simp add: page_def matching_filter filters)
  }
  {
    assume "IncludeInheritedFromGroups opts \<and>
       (PolymorphicID_ID d u = None \<or> \<not> PolymorphicID_IsIdentity d u)"
    then have "ListGrants_subject d tx opts
                 = Inl (Errorf ''IncludeInheritedFromGroups requires a userId subject'')"
      using assms(4,5) by (auto simp: ListGrants_subject_def split: option.splits)
    then show "ListGrants d tx opts =
         \<lparr>result = [],
          err = Some (Errorf ''IncludeInheritedFromGroups requires a userId subject''),
          max_update_index = None\<rparr>"
      by (rule ListGrants_early_error)
  }
qed

text \<open>
  The theorem on the example database, for the destination \<open>prod\<close>: with inheritance the
  grant of user 7 and the grant of group 3, ordered by id; without it the grant of user 7
  only; with the group as subject an error; with inheritance and pages of one row, the
  first page holds the grant of user 7.
\<close>

theorem ListGrants_inherited_from_groups_witness:
  "result (ListGrants ex_deps ex_tx ex_opts) =
     [ex_grant 11 1 ''u:7'' ''view'' ''prod'' 1 None, ex_grant 12 1 ''g:3'' ''admin'' ''prod'' 2 None]
 \<and> result (ListGrants ex_deps ex_tx (ex_opts\<lparr>IncludeInheritedFromGroups := False\<rparr>)) =
     [ex_grant 11 1 ''u:7'' ''view'' ''prod'' 1 None]
 \<and> ListGrants ex_deps ex_tx (ex_opts\<lparr>BySubject := ''g:3''\<rparr>) =
     \<lparr>result = [],
      err = Some (Errorf ''IncludeInheritedFromGroups requires a userId subject''),
      max_update_index = None\<rparr>
 \<and> result (ListGrants ex_deps ex_tx (ex_opts\<lparr>Pagination := Some \<lparr>Page = 1, Limit = 1\<rparr>\<rparr>)) =
     [ex_grant 11 1 ''u:7'' ''view'' ''prod'' 1 None]"
proof -
  have tx: "status ex_tx \<noteq> Aborted"
    by (simp add: ex_tx_def)
  have facts:
    "PolymorphicID_ID ex_deps ''u:7'' = Some 7"
    "PolymorphicID_IsIdentity ex_deps ''u:7''"
    "groupIDsForUser ex_deps ex_tx 7 = Inr [3]"
    "\<not> PolymorphicID_IsIdentity ex_deps ''g:3''"
    by (simp_all add: ex_deps_def strings_HasPrefix_def)
  have w1: "result (ListGrants ex_deps ex_tx ex_opts) =
     [ex_grant 11 1 ''u:7'' ''view'' ''prod'' 1 None, ex_grant 12 1 ''g:3'' ''admin'' ''prod'' 2 None]"
    using ListGrants_inherited_from_groups[where tx = ex_tx and opts = ex_opts and u = "''u:7''"
        and d = ex_deps, THEN conjunct2, THEN conjunct1, THEN spec, THEN spec, of 7 "[3]"] tx facts
    by (simp add: ex_store_defs limit_offset_def)
  have w2: "result (ListGrants ex_deps ex_tx (ex_opts\<lparr>IncludeInheritedFromGroups := False\<rparr>)) =
     [ex_grant 11 1 ''u:7'' ''view'' ''prod'' 1 None]"
    using ListGrants_inherited_from_groups[where tx = ex_tx
        and opts = "ex_opts\<lparr>IncludeInheritedFromGroups := False\<rparr>" and u = "''u:7''"
        and d = ex_deps, THEN conjunct1] tx
    by (simp add: ex_store_defs limit_offset_def)
  have w3: "ListGrants ex_deps ex_tx (ex_opts\<lparr>BySubject := ''g:3''\<rparr>) =
     \<lparr>result = [],
      err = Some (Errorf ''IncludeInheritedFromGroups requires a userId subject''),
      max_update_index = None\<rparr>"
    using ListGrants_inherited_from_groups[where tx = ex_tx
        and opts = "ex_opts\<lparr>BySubject := ''g:3''\<rparr>" and u = "''g:3''"
        and d = ex_deps, THEN conjunct2, THEN conjunct2] tx facts
    by (simp add: ex_opts_def)
  have w4: "result (ListGrants ex_deps ex_tx
                (ex_opts\<lparr>Pagination := Some \<lparr>Page = 1, Limit = 1\<rparr>\<rparr>)) =
     [ex_grant 11 1 ''u:7'' ''view'' ''prod'' 1 None]"
    using ListGrants_inherited_from_groups[where tx = ex_tx
        and opts = "ex_opts\<lparr>Pagination := Some \<lparr>Page = 1, Limit = 1\<rparr>\<rparr>" and u = "''u:7''"
        and d = ex_deps, THEN conjunct2, THEN conjunct1, THEN spec, THEN spec, of 7 "[3]"] tx facts
    by (simp add: ex_store_defs limit_offset_def)
  from w1 w2 w3 w4 show ?thesis
    by (intro conjI)
qed


subsection \<open>Which rows a read may return\<close>

lemma QueryRow_grant_holds:
  "QueryRow_grant tx conds = Inr g \<Longrightarrow> g \<in> set (grants tx) \<and> (\<forall>c \<in> set conds. holds c g)"
proof -
  assume a: "QueryRow_grant tx conds = Inr g"
  then have "g \<in> set (matching conds (grants tx))"
    by (auto simp: QueryRow_grant_def split: if_splits list.splits)
  then show ?thesis
    by (simp add: set_matching)
qed

lemma ListGrants_result_holds:
  assumes "g \<in> set (result (ListGrants d tx opts))"
  shows "g \<in> set (grants tx) \<and> holds DeletedAtIsNull g \<and>
         holds (OrganizationIdEq (tx_OrganizationID tx)) g"
proof (cases "ListGrants_subject d tx opts")
  case (Inl e)
  then show ?thesis
    using assms by (simp add: ListGrants_early_error)
next
  case (Inr sc)
  show ?thesis
  proof (cases "status tx = Aborted")
    case True
    then show ?thesis
      using assms by (simp add: ListGrants_aborted)
  next
    case False
    from ListGrants_rows[OF False Inr] assms
    have "g \<in> set (matching ([DeletedAtIsNull, OrganizationIdEq (tx_OrganizationID tx)]
                          @ sc @ ListGrants_filters opts) (grants tx))"
      using set_limit_offset by fastforce
    then show ?thesis
      by (simp add: set_matching)
  qed
qed

text \<open>
  Claim C2, as stated, fails for the list of a user's public keys: the query is not
  filtered on the organization of the transaction. Transactions of organization 1 and of
  organization 2 on the same database are both given the same key row of user 7.
\<close>

theorem userPublicKeys_ignores_organization_counterexample:
  "tx_OrganizationID ex_tx = 1 \<and>
   userPublicKeys ex_tx 7 = Inr [ex_key] \<and>
   userPublicKeys (ex_tx\<lparr>tx_OrganizationID := 2\<rparr>) 7 = Inr [ex_key]"
  by (simp add: userPublicKeys_def Query_keys_def ex_tx_def ex_key_def)

text \<open>
  Claim C2, amended: the reads of grants, \<^verbatim>\<open>ListGrants\<close> and \<^verbatim>\<open>GetGrant\<close>, filter on the
  organization of the transaction and on \<^verbatim>\<open>deleted_at IS NULL\<close>: every row they return
  is a row of that organization that is not soft-deleted. The list of a user's public keys
  filters on \<^verbatim>\<open>deleted_at IS NULL\<close> and on the user id: every row it returns is not
  soft-deleted and belongs to that user; its rows carry no organization, and its result is
  the same for every organization of the transaction.
\<close>

theorem reads_filter_returned_rows:
  "(\<forall>g \<in> set (result (ListGrants d tx opts)).
      OrganizationID g = tx_OrganizationID tx \<and> DeletedAt g = None)
 \<and> (\<forall>g. GetGrant tx gopts = Inr g \<longrightarrow>
      OrganizationID g = tx_OrganizationID tx \<and> DeletedAt g = None)
 \<and> (\<forall>ks. userPublicKeys tx userID = Inr ks \<longrightarrow>
      (\<forall>k \<in> set ks. k_DeletedAt k = None \<and> k_UserID k = userID))
 \<and> userPublicKeys (tx\<lparr>tx_OrganizationID := org\<rparr>) userID = userPublicKeys tx userID"
proof (intro conjI ballI allI impI)
  fix g
  assume "g \<in> set (result (ListGrants d tx opts))"
  from ListGrants_result_holds[OF this]
  show "OrganizationID g = tx_OrganizationID tx" and "DeletedAt g = None"
    by simp_all
next
  fix g
  assume "GetGrant tx gopts = Inr g"
  then obtain conds where "QueryRow_grant tx conds = Inr g"
    and "OrganizationIdEq (tx_OrganizationID tx) \<in> set conds" and "DeletedAtIsNull \<in> set conds"
    by (auto simp: GetGrant_def Let_def split: if_splits sum.splits)
  with QueryRow_grant_holds[of tx conds g]
  have "holds (OrganizationIdEq (tx_OrganizationID tx)) g \<and> holds DeletedAtIsNull g"
    by blast
  then show "OrganizationID g = tx_OrganizationID tx" and "DeletedAt g = None"
    by simp_all
next
  fix ks k
  assume "userPublicKeys tx userID = Inr ks" and "k \<in> set ks"
  then show "k_DeletedAt k = None" and "k_UserID k = userID"
    by (auto simp: userPublicKeys_def Query_keys_def split: if_splits)
next
  show "userPublicKeys (tx\<lparr>tx_OrganizationID := org\<rparr>) userID = userPublicKeys tx userID"
    by (simp add: userPublicKeys_def Query_keys_def)
qed

text \<open>
  The theorem on the example database: the grants listed for user 7 of organization 1, the
  grant looked up by id, and the keys of user 7 (the soft-deleted key 22 is left out).
\<close>

theorem reads_filter_returned_rows_witness:
  "result (ListGrants ex_deps ex_tx ex_opts) =
     [ex_grant 11 1 ''u:7'' ''view'' ''prod'' 1 None, ex_grant 12 1 ''g:3'' ''admin'' ''prod'' 2 None]
 \<and> list_all (\<lambda>g. OrganizationID g = 1 \<and> DeletedAt g = None)
      (result (ListGrants ex_deps ex_tx ex_opts))
 \<and> GetGrant ex_tx \<lparr>ByID = 11, gg_BySubject = [], gg_ByPrivilege = [], gg_ByResource = []\<rparr>
      = Inr (ex_grant 11 1 ''u:7'' ''view'' ''prod'' 1 None)
 \<and> OrganizationID (ex_grant 11 1 ''u:7'' ''view'' ''prod'' 1 None) = tx_OrganizationID ex_tx
 \<and> userPublicKeys ex_tx 7 = Inr [ex_key]
 \<and> k_DeletedAt ex_key = None \<and> k_UserID ex_key = 7"
proof -
  note t = reads_filter_returned_rows[of ex_deps ex_tx ex_opts
      "\<lparr>ByID = 11, gg_BySubject = [], gg_ByPrivilege = [], gg_ByResource = []\<rparr>" 7 2]
  have rows: "result (ListGrants ex_deps ex_tx ex_opts) =
     [ex_grant 11 1 ''u:7'' ''view'' ''prod'' 1 None, ex_grant 12 1 ''g:3'' ''admin'' ''prod'' 2 None]"
    by (simp add: ListGrants_def ListGrants_subject_def ListGrants_filters_def Query_grants_def
        matching_def limit_offset_def ex_store_defs strings_HasPrefix_def grantsMaxUpdateIndex_def
        QueryRow_max_update_index_def grantsMaxUpdateIndex_where_def)
  have org: "tx_OrganizationID ex_tx = 1"
    by (simp add: ex_tx_def)
  have w1: "list_all (\<lambda>g. OrganizationID g = 1 \<and> DeletedAt g = None)
      (result (ListGrants ex_deps ex_tx ex_opts))"
    using t org by (simp add: list_all_iff)
  have get: "GetGrant ex_tx \<lparr>ByID = 11, gg_BySubject = [], gg_ByPrivilege = [], gg_ByResource = []\<rparr>
      = Inr (ex_grant 11 1 ''u:7'' ''view'' ''prod'' 1 None)"
    by (simp add: GetGrant_def QueryRow_grant_def matching_def ex_store_defs)
  have w2: "OrganizationID (ex_grant 11 1 ''u:7'' ''view'' ''prod'' 1 None) = tx_OrganizationID ex_tx"
    using t get by blast
  have keys: "userPublicKeys ex_tx 7 = Inr [ex_key]"
    by (simp add: userPublicKeys_def Query_keys_def ex_tx_def ex_key_def)
  have w3: "k_DeletedAt ex_key = None \<and> k_UserID ex_key = 7"
    using t keys by simp
  from rows w1 get w2 keys w3 show ?thesis
    by (intro conjI) simp_all
qed


subsection \<open>The scope of max_update_index\<close>

lemma QueryRow_max_update_index_Max:
  assumes "status tx \<noteq> Aborted"
  shows "QueryRow_max_update_index tx conds =
           (if matching conds (grants tx) = [] then (0, Some ScanNullError)
            else (Max (UpdateIndex ` set (matching conds (grants tx))), None))"
proof (cases "matching conds (grants tx)")
  case Nil
  then show ?thesis
    using assms by (simp add: QueryRow_max_update_index_def)
next
  case (Cons g gs)
  have "fold max (map UpdateIndex gs) (UpdateIndex g) = Max (set (UpdateIndex g # map UpdateIndex gs))"
    by (simp only: Max.set_eq_fold)
  then show ?thesis
    using assms Cons by (simp add: QueryRow_max_update_index_def)
qed

lemma grantsMaxUpdateIndex_scope:
  "matching (grantsMaxUpdateIndex_where tx \<lparr>mx_ByResource = r\<rparr>) rows =
     filter (\<lambda>g. OrganizationID g = tx_OrganizationID tx \<and> (r = [] \<or> Resource g = r)) rows"
  by (auto simp: matching_def grantsMaxUpdateIndex_where_def intro: filter_cong)

lemma ListGrants_max_update_index:
  assumes "status tx \<noteq> Aborted" and "ListGrants_subject d tx opts = Inr sc"
    and "MaxUpdateIndex opts"
    and "filter (\<lambda>g. OrganizationID g = tx_OrganizationID tx \<and>
                      (ByResource opts = [] \<or> Resource g = ByResource opts)) (grants tx) \<noteq> []"
  shows "max_update_index (ListGrants d tx opts) =
           Some (Max (UpdateIndex ` set
                   (filter (\<lambda>g. OrganizationID g = tx_OrganizationID tx \<and>
                      (ByResource opts = [] \<or> Resource g = ByResource opts)) (grants tx))))"
    and "err (ListGrants d tx opts) = None"
proof -
  let ?scope = "filter (\<lambda>g. OrganizationID g = tx_OrganizationID tx \<and>
                      (ByResource opts = [] \<or> Resource g = ByResource opts)) (grants tx)"
  have "matching (grantsMaxUpdateIndex_where tx \<lparr>mx_ByResource = ByResource opts\<rparr>) (grants tx)
          = ?scope"
    by (rule grantsMaxUpdateIndex_scope)
  then have "grantsMaxUpdateIndex tx \<lparr>mx_ByResource = ByResource opts\<rparr> =
          (Max (UpdateIndex ` set ?scope), None)"
    using QueryRow_max_update_index_Max[OF assms(1)] assms(4)
    by (simp add: grantsMaxUpdateIndex_def)
  then show "max_update_index (ListGrants d tx opts) = Some (Max (UpdateIndex ` set ?scope))"
    and "err (ListGrants d tx opts) = None"
    using assms(1-3) by (simp_all add: ListGrants_def Query_grants_def)
qed

subsection \<open>Deletions and the cursor\<close>

lemma soft_delete_raises:
  assumes "soft_delete conds now seq rows = (rows', seq')"
    and "g \<in> set rows" and "list_all (\<lambda>c. holds c g) conds"
  shows "\<exists>g' \<in> set rows'. OrganizationID g' = OrganizationID g \<and> Resource g' = Resource g \<and>
           seq < UpdateIndex g'"
  using assms
proof (induction rows arbitrary: seq rows' seq')
  case Nil
  then show ?case by simp
next
  case (Cons x xs)
  show ?case
  proof (cases "list_all (\<lambda>c. holds c x) conds")
    case True
    obtain ys s where rec: "soft_delete conds now (seq + 1) xs = (ys, s)"
      by (cases "soft_delete conds now (seq + 1) xs")
    with True Cons.prems(1)
    have rows': "rows' = x\<lparr>DeletedAt := Some now, UpdateIndex := seq + 1\<rparr> # ys"
      by simp
    show ?thesis
    proof (cases "g = x")
      case True
      then show ?thesis
        using rows' by simp
    next
      case False
      then have "g \<in> set xs"
        using Cons.prems(2) by simp
      from Cons.IH[OF rec this Cons.prems(3)] show ?thesis
        using rows' by force
    qed
  next
    case False
    obtain ys s where rec: "soft_delete conds now seq xs = (ys, s)"
      by (cases "soft_delete conds now seq xs")
    with False Cons.prems(1) have rows': "rows' = x # ys"
      by simp
    from False Cons.prems(3) have "g \<noteq> x"
      by auto
    then have "g \<in> set xs"
      using Cons.prems(2) by simp
    from Cons.IH[OF rec this Cons.prems(3)] show ?thesis
      using rows' by force
  qed
qed

lemma soft_delete_keeps_sequence_ahead:
  assumes "soft_delete conds now seq rows = (rows', seq')"
    and "\<forall>r \<in> set rows. UpdateIndex r \<le> seq"
  shows "seq \<le> seq' \<and> (\<forall>r \<in> set rows'. UpdateIndex r \<le> seq')"
  using assms
proof (induction rows arbitrary: seq rows' seq')
  case Nil
  then show ?case by simp
next
  case (Cons x xs)
  show ?case
  proof (cases "list_all (\<lambda>c. holds c x) conds")
    case True
    obtain ys s where rec: "soft_delete conds now (seq + 1) xs = (ys, s)"
      by (cases "soft_delete conds now (seq + 1) xs")
    with True Cons.prems(1)
    have rows': "rows' = x\<lparr>DeletedAt := Some now, UpdateIndex := seq + 1\<rparr> # ys" and s: "seq' = s"
      by simp_all
    have "\<forall>r \<in> set xs. UpdateIndex r \<le> seq + 1"
      using Cons.prems(2) by force
    from Cons.IH[OF rec this] show ?thesis
      using rows' s by auto
  next
    case False
    obtain ys s where rec: "soft_delete conds now seq xs = (ys, s)"
      by (cases "soft_delete conds now seq xs")
    with False Cons.prems(1) have rows': "rows' = x # ys" and s: "seq' = s"
      by simp_all
    have "\<forall>r \<in> set xs. UpdateIndex r \<le> seq"
      using Cons.prems(2) by simp
    from Cons.IH[OF rec this] show ?thesis
      using rows' s Cons.prems(2) by auto
  qed
qed

lemma DeleteGrants_soft_deletes:
  assumes "status tx \<noteq> Aborted" and "DeleteGrants_where tx dopts = Inr conds"
    and "DeleteGrants now tx dopts = (e, tx')"
  shows "e = None \<and>
         tx' = tx\<lparr>grants := fst (soft_delete conds now (seq_update_index tx) (grants tx)),
                   seq_update_index := snd (soft_delete conds now (seq_update_index tx) (grants tx))\<rparr>"
  using assms
  by (auto simp: DeleteGrants_def Exec_UPDATE_grants_deleted_def split: prod.splits)

text \<open>
  The sequence stays ahead of the table through a soft delete.
\<close>

lemma DeleteGrants_keeps_sequence_ahead:
  assumes "DeleteGrants now tx dopts = (e, tx')"
    and "\<forall>r \<in> set (grants tx). UpdateIndex r \<le> seq_update_index tx"
  shows "\<forall>r \<in> set (grants tx'). UpdateIndex r \<le> seq_update_index tx'"
proof (cases "status tx \<noteq> Aborted \<and> (\<exists>conds. DeleteGrants_where tx dopts = Inr conds)")
  case True
  then obtain conds where w: "DeleteGrants_where tx dopts = Inr conds" and st: "status tx \<noteq> Aborted"
    by blast
  obtain rows' seq' where sd: "soft_delete conds now (seq_update_index tx) (grants tx) = (rows', seq')"
    by (cases "soft_delete conds now (seq_update_index tx) (grants tx)")
  from DeleteGrants_soft_deletes[OF st w assms(1)] sd
  have "tx' = tx\<lparr>grants := rows', seq_update_index := seq'\<rparr>"
    by simp
  with soft_delete_keeps_sequence_ahead[OF sd assms(2)] show ?thesis
    by simp
next
  case False
  then have "tx' = tx"
    using assms(1)
    by (auto simp: DeleteGrants_def Exec_UPDATE_grants_deleted_def split: sum.splits)
  then show ?thesis
    using assms(2) by simp
qed

text \<open>
  A soft delete is seen by the cursor: when the sequence is ahead of every stored update
  index, a \<^verbatim>\<open>DeleteGrants\<close> that soft-deletes a grant raises the maximum over every scope
  that holds the grant.
\<close>

lemma DeleteGrants_raises_scope_maximum:
  fixes org :: uid and res :: string
  defines "scope \<equiv> filter (\<lambda>g. OrganizationID g = org \<and> (res = [] \<or> Resource g = res))"
  assumes "status tx \<noteq> Aborted"
    and "\<forall>r \<in> set (grants tx). UpdateIndex r \<le> seq_update_index tx"
    and "DeleteGrants_where tx dopts = Inr conds"
    and "DeleteGrants now tx dopts = (e, tx')"
    and "g \<in> set (scope (grants tx))" and "list_all (\<lambda>c. holds c g) conds"
  shows "e = None" and "status tx' = status tx" and "tx_OrganizationID tx' = tx_OrganizationID tx"
    and "scope (grants tx') \<noteq> []"
    and "Max (UpdateIndex ` set (scope (grants tx))) < Max (UpdateIndex ` set (scope (grants tx')))"
proof -
  obtain rows' seq' where sd: "soft_delete conds now (seq_update_index tx) (grants tx) = (rows', seq')"
    by (cases "soft_delete conds now (seq_update_index tx) (grants tx)")
  from DeleteGrants_soft_deletes[OF assms(2,4,5)] sd
  have e: "e = None" and tx': "tx' = tx\<lparr>grants := rows', seq_update_index := seq'\<rparr>"
    by simp_all
  show "e = None"
    by (rule e)
  show "status tx' = status tx" and "tx_OrganizationID tx' = tx_OrganizationID tx"
    using tx' by simp_all
  have g: "g \<in> set (grants tx)" "OrganizationID g = org" "res = [] \<or> Resource g = res"
    using assms(6) by (auto simp: scope_def)
  from soft_delete_raises[OF sd g(1) assms(7)]
  obtain g' where g': "g' \<in> set rows'" "OrganizationID g' = OrganizationID g"
    "Resource g' = Resource g" "seq_update_index tx < UpdateIndex g'"
    by blast
  have in_new: "g' \<in> set (scope (grants tx'))"
    using g' g tx' by (auto simp: scope_def)
  then show "scope (grants tx') \<noteq> []"
    by (metis empty_iff empty_set)
  have "Max (UpdateIndex ` set (scope (grants tx))) \<le> seq_update_index tx"
    using assms(3,6) by (subst Max_le_iff) (auto simp: scope_def)
  also have "\<dots> < UpdateIndex g'"
    by (rule g'(4))
  also have "\<dots> \<le> Max (UpdateIndex ` set (scope (grants tx')))"
    using in_new by (intro Max_ge) auto
  finally show "Max (UpdateIndex ` set (scope (grants tx)))
                  < Max (UpdateIndex ` set (scope (grants tx')))" .
qed

text \<open>
  Claim C3, as stated, fails: the destination filter of the call does not reach the
  computation of the maximum. On the example database the call lists the grants of user 7 on
  the destination \<open>prod\<close>; the rows of organization 1 on that destination, soft-deleted
  ones included, have the update indexes 2 and 1, and the call returns 5, the index of a
  grant on \<open>staging\<close>.
\<close>

theorem max_update_index_ignores_destination_counterexample:
  "ByDestination ex_opts = ''prod'' \<and>
   map UpdateIndex
     (filter (\<lambda>g. OrganizationID g = 1 \<and>
                   (Resource g = ''prod'' \<or> sql_like ''prod.%'' (Resource g))) (grants ex_tx))
     = [2, 1] \<and>
   max_update_index (ListGrants ex_deps ex_tx ex_opts) = Some 5"
  by (simp add: ListGrants_def ListGrants_subject_def ListGrants_filters_def Query_grants_def
      matching_def limit_offset_def ex_store_defs strings_HasPrefix_def grantsMaxUpdateIndex_def
      QueryRow_max_update_index_def grantsMaxUpdateIndex_where_def)

text \<open>
  Claim C3, amended: for every \<^verbatim>\<open>ListGrants\<close> call that requests \<open>MaxUpdateIndex\<close> (on a
  usable transaction and with a subject clause that raises no error), the returned
  \<open>max_update_index\<close> equals the maximum \<^verbatim>\<open>update_index\<close> over the scope of the call,
  where the scope is all grant rows of the organization of the transaction whose resource
  equals \<open>ByResource\<close> (all rows of the organization when \<open>ByResource\<close> is empty),
  soft-deleted rows as well as live rows, provided the scope holds a row; the subject,
  privilege, destination and connector filters of the call do not restrict it. So, on a
  database whose sequence is ahead of every stored update index, a \<^verbatim>\<open>DeleteGrants\<close> that
  soft-deletes a grant of that scope raises the returned cursor.
\<close>

theorem max_update_index_scope:
  fixes opts :: ListGrantsOptions and tx :: Txn and d :: deps
  defines "scope \<equiv> filter (\<lambda>g. OrganizationID g = tx_OrganizationID tx \<and>
                                (ByResource opts = [] \<or> Resource g = ByResource opts))"
  assumes "status tx \<noteq> Aborted" and "ListGrants_subject d tx opts = Inr sc"
    and "MaxUpdateIndex opts" and "scope (grants tx) \<noteq> []"
  shows
   "max_update_index (ListGrants d tx opts) = Some (Max (UpdateIndex ` set (scope (grants tx))))
  \<and> err (ListGrants d tx opts) = None
  \<and> (\<forall>now dopts conds e tx' g sc'.
        (\<forall>r \<in> set (grants tx). UpdateIndex r \<le> seq_update_index tx) \<and>
        DeleteGrants_where tx dopts = Inr conds \<and> DeleteGrants now tx dopts = (e, tx') \<and>
        g \<in> set (scope (grants tx)) \<and> list_all (\<lambda>c. holds c g) conds \<and>
        ListGrants_subject d tx' opts = Inr sc' \<longrightarrow>
        e = None \<and> err (ListGrants d tx' opts) = None \<and>
        (\<exists>m'. max_update_index (ListGrants d tx' opts) = Some m' \<and>
              Max (UpdateIndex ` set (scope (grants tx))) < m'))"
proof (intro conjI allI impI)
  show "max_update_index (ListGrants d tx opts) = Some (Max (UpdateIndex ` set (scope (grants tx))))"
    and "err (ListGrants d tx opts) = None"
    using ListGrants_max_update_index[OF assms(2,3,4)] assms(5)
    unfolding scope_def by simp_all
next
  fix now dopts conds e tx' g sc'
  assume a: "(\<forall>r \<in> set (grants tx). UpdateIndex r \<le> seq_update_index tx) \<and>
        DeleteGrants_where tx dopts = Inr conds \<and> DeleteGrants now tx dopts = (e, tx') \<and>
        g \<in> set (scope (grants tx)) \<and> list_all (\<lambda>c. holds c g) conds \<and>
        ListGrants_subject d tx' opts = Inr sc'"
  then have inv: "\<forall>r \<in> set (grants tx). UpdateIndex r \<le> seq_update_index tx"
    and w: "DeleteGrants_where tx dopts = Inr conds" and del: "DeleteGrants now tx dopts = (e, tx')"
    and g: "g \<in> set (filter (\<lambda>g. OrganizationID g = tx_OrganizationID tx \<and>
                                (ByResource opts = [] \<or> Resource g = ByResource opts)) (grants tx))"
    and h: "list_all (\<lambda>c. holds c g) conds" and sc': "ListGrants_subject d tx' opts = Inr sc'"
    unfolding scope_def by simp_all
  note r = DeleteGrants_raises_scope_maximum[OF assms(2) inv w del g h]
  have st': "status tx' \<noteq> Aborted"
    using r(2) assms(2) by simp
  have ne': "filter (\<lambda>g. OrganizationID g = tx_OrganizationID tx' \<and>
                      (ByResource opts = [] \<or> Resource g = ByResource opts)) (grants tx') \<noteq> []"
    using r(4) by (simp add: r(3))
  note l = ListGrants_max_update_index[OF st' sc' assms(4) ne']
  show "e = None"
    by (rule r(1))
  show "err (ListGrants d tx' opts) = None"
    by (rule l(2))
  show "\<exists>m'. max_update_index (ListGrants d tx' opts) = Some m' \<and>
              Max (UpdateIndex ` set (scope (grants tx))) < m'"
    using l(1) r(5) unfolding scope_def by (simp add: r(3))
qed

text \<open>
  The theorem on the example database: the scope of the call of the counterexample is the
  three rows of organization 1, of which the soft-deleted grant on \<open>staging\<close> has the
  greatest index, 5. The sequence stands at 5. After the soft delete of the grant 11, which
  the call lists, the same call returns 6.
\<close>

theorem max_update_index_scope_witness:
  "map UpdateIndex (filter (\<lambda>g. OrganizationID g = 1) (grants ex_tx)) = [2, 1, 5]
 \<and> map DeletedAt (filter (\<lambda>g. OrganizationID g = 1) (grants ex_tx)) = [None, None, Some 100]
 \<and> max_update_index (ListGrants ex_deps ex_tx ex_opts) = Some 5
 \<and> err (ListGrants ex_deps ex_tx ex_opts) = None
 \<and> fst (DeleteGrants 200 ex_tx ex_delete) = None
 \<and> max_update_index (ListGrants ex_deps (snd (DeleteGrants 200 ex_tx ex_delete)) ex_opts) = Some 6
 \<and> err (ListGrants ex_deps (snd (DeleteGrants 200 ex_tx ex_delete)) ex_opts) = None"
proof -
  let ?tx' = "snd (DeleteGrants 200 ex_tx ex_delete)"
  let ?g = "ex_grant 11 1 ''u:7'' ''view'' ''prod'' 1 None"
  let ?conds = "[OrganizationIdEq 1, DeletedAtIsNull, IdEq 11]"
  have tx: "status ex_tx \<noteq> Aborted"
    by (simp add: ex_tx_def)
  have sc: "ListGrants_subject ex_deps tx ex_opts = Inr [SubjectIn [''u:7'', ''g:3'']]" for tx
    by (simp add: ListGrants_subject_def ex_deps_def ex_opts_def strings_HasPrefix_def)
  have req: "MaxUpdateIndex ex_opts"
    by (simp add: ex_opts_def)
  have scope: "filter (\<lambda>g. OrganizationID g = tx_OrganizationID ex_tx \<and>
                      (ByResource ex_opts = [] \<or> Resource g = ByResource ex_opts)) (grants ex_tx)
      = [ex_grant 12 1 ''g:3'' ''admin'' ''prod'' 2 None, ?g,
         ex_grant 13 1 ''u:8'' ''view'' ''staging'' 5 (Some 100)]"
    by (simp add: ex_store_defs)
  have ne: "filter (\<lambda>g. OrganizationID g = tx_OrganizationID ex_tx \<and>
                      (ByResource ex_opts = [] \<or> Resource g = ByResource ex_opts)) (grants ex_tx)
      \<noteq> []"
    by (simp add: scope)
  note t = max_update_index_scope[OF tx sc req ne]
  have w1: "max_update_index (ListGrants ex_deps ex_tx ex_opts) = Some 5 \<and>
            err (ListGrants ex_deps ex_tx ex_opts) = None"
    using t unfolding scope by (simp add: ex_grant_def)
  have inv: "\<forall>r \<in> set (grants ex_tx). UpdateIndex r \<le> seq_update_index ex_tx"
    by (simp add: ex_store_defs)
  have wh: "DeleteGrants_where ex_tx ex_delete = Inr ?conds"
    by (simp add: DeleteGrants_where_def ex_delete_def ex_tx_def)
  have del: "DeleteGrants 200 ex_tx ex_delete = (fst (DeleteGrants 200 ex_tx ex_delete), ?tx')"
    by simp
  have g: "?g \<in> set (filter (\<lambda>g. OrganizationID g = tx_OrganizationID ex_tx \<and>
                      (ByResource ex_opts = [] \<or> Resource g = ByResource ex_opts)) (grants ex_tx))"
    unfolding scope by simp
  have h: "list_all (\<lambda>c. holds c ?g) ?conds"
    by (simp add: ex_grant_def)
  from t[THEN conjunct2, THEN conjunct2, rule_format, where now = 200 and dopts = ex_delete
      and conds = ?conds and g = ?g and sc' = "[SubjectIn [''u:7'', ''g:3'']]"
      and e = "fst (DeleteGrants 200 ex_tx ex_delete)" and tx' = ?tx'] inv wh del g h sc
  have raised: "fst (DeleteGrants 200 ex_tx ex_delete) = None \<and>
                err (ListGrants ex_deps ?tx' ex_opts) = None \<and>
                (\<exists>m'. max_update_index (ListGrants ex_deps ?tx' ex_opts) = Some m' \<and>
                      Max (UpdateIndex ` set (filter (\<lambda>g. OrganizationID g = tx_OrganizationID ex_tx \<and>
                      (ByResource ex_opts = [] \<or> Resource g = ByResource ex_opts)) (grants ex_tx))) < m')"
    by blast
  have six: "max_update_index (ListGrants ex_deps ?tx' ex_opts) = Some 6"
    using raised
    by (simp add: DeleteGrants_def DeleteGrants_where_def Exec_UPDATE_grants_deleted_def
        ListGrants_def ListGrants_subject_def ListGrants_filters_def Query_grants_def
        matching_def limit_offset_def ex_store_defs ex_delete_def strings_HasPrefix_def
        grantsMaxUpdateIndex_def QueryRow_max_update_index_def grantsMaxUpdateIndex_where_def)
  have idx: "map UpdateIndex (filter (\<lambda>g. OrganizationID g = 1) (grants ex_tx)) = [2, 1, 5]"
    "map DeletedAt (filter (\<lambda>g. OrganizationID g = 1) (grants ex_tx)) = [None, None, Some 100]"
    by (simp_all add: ex_store_defs)
  from idx w1 raised six show ?thesis
    by (intro conjI) simp_all
qed

subsection \<open>Creating a grant\<close>

lemma insert_conflict_fails_the_block:
  "status tx = InTransaction \<Longrightarrow> unique_violation (grants tx) g \<Longrightarrow>
   Exec_INSERT_grant g tx =
     (Some UniqueViolation, tx\<lparr>seq_update_index := seq_update_index tx + 1, status := Aborted\<rparr>)"
  by (simp add: Exec_INSERT_grant_def fail_block_def Let_def)

lemma CreateGrant_in_block:
  assumes "Subject grant \<noteq> []" and "Privilege grant \<noteq> []" and "Resource grant \<noteq> []"
    and "OnInsert grant = Inr g1" and "status tx = InTransaction"
  shows "CreateGrant OnInsert tx grant =
           (if unique_violation (grants tx) (setOrg tx g1)
            then (Some ErrDuplicate,
                  tx\<lparr>seq_update_index := seq_update_index tx + 1,
                      savepoints := (''beforeCreate'', grants tx) # savepoints tx\<rparr>,
                  setOrg tx g1)
            else (None,
                  tx\<lparr>seq_update_index := seq_update_index tx + 1,
                      grants := grants tx
                        @ [(setOrg tx g1)\<lparr>UpdateIndex := seq_update_index tx + 1\<rparr>]\<rparr>,
                  setOrg tx g1))"
  using assms
  by (simp add: CreateGrant_def Exec_SAVEPOINT_def Exec_INSERT_grant_def
      Exec_ROLLBACK_TO_SAVEPOINT_def Exec_RELEASE_SAVEPOINT_def fail_block_def
      isPgErrorCode_def handleError_def Let_def)

lemma CreateGrant_outside_block:
  assumes "Subject grant \<noteq> []" and "Privilege grant \<noteq> []" and "Resource grant \<noteq> []"
    and "OnInsert grant = Inr g1" and "status tx = NoTransaction"
  shows "CreateGrant OnInsert tx grant =
           (if unique_violation (grants tx) (setOrg tx g1)
            then (Some ErrDuplicate, tx\<lparr>seq_update_index := seq_update_index tx + 1\<rparr>,
                  setOrg tx g1)
            else (None,
                  tx\<lparr>seq_update_index := seq_update_index tx + 1,
                      grants := grants tx
                        @ [(setOrg tx g1)\<lparr>UpdateIndex := seq_update_index tx + 1\<rparr>]\<rparr>,
                  setOrg tx g1))"
  using assms
  by (simp add: CreateGrant_def Exec_SAVEPOINT_def Exec_INSERT_grant_def
      Exec_ROLLBACK_TO_SAVEPOINT_def Exec_RELEASE_SAVEPOINT_def fail_block_def
      isPgErrorCode_def handleError_def Let_def)

text \<open>
  Claim C8. For a grant with subject, privilege and resource that \<^verbatim>\<open>OnInsert\<close> accepts,
  on a connection that is not in a failed transaction block, \<^verbatim>\<open>CreateGrant\<close> draws the
  next value of the sequence and
  \<^item> when no uniqueness constraint is violated, returns no error and appends the grant,
    stamped with the organization of the transaction, with that value as its
    \<^verbatim>\<open>update_index\<close>; the savepoint is released;
  \<^item> when a grant that is not deleted with the same organization, subject, privilege and
    resource exists, returns \<^verbatim>\<open>ErrDuplicate\<close> and leaves the table as it was; the
    transaction block is in the state it was in before the call, not failed (the rollback
    to the savepoint \<open>beforeCreate\<close> has undone the failure, see
    \<open>insert_conflict_fails_the_block\<close>), and every query on it answers as before.
\<close>

theorem CreateGrant_inserts_or_reports_duplicate:
  assumes "Subject grant \<noteq> []" and "Privilege grant \<noteq> []" and "Resource grant \<noteq> []"
    and "OnInsert grant = Inr g1" and "status tx \<noteq> Aborted"
    and "CreateGrant OnInsert tx grant = (e, tx', g')"
  shows
   "g' = setOrg tx g1 \<and> seq_update_index tx' = seq_update_index tx + 1 \<and> status tx' = status tx
  \<and> (\<not> unique_violation (grants tx) g' \<longrightarrow>
       e = None \<and>
       grants tx' = grants tx @ [g'\<lparr>UpdateIndex := seq_update_index tx + 1\<rparr>] \<and>
       savepoints tx' = savepoints tx)
  \<and> (DeletedAt g' = None \<and>
      (\<exists>r \<in> set (grants tx). DeletedAt r = None \<and> OrganizationID r = tx_OrganizationID tx \<and>
          Subject r = Subject g' \<and> Privilege r = Privilege g' \<and> Resource r = Resource g') \<longrightarrow>
       e = Some ErrDuplicate \<and>
       grants tx' = grants tx \<and>
       (\<forall>conds lim. Query_grants tx' conds lim = Query_grants tx conds lim) \<and>
       (status tx = InTransaction \<longrightarrow>
          savepoints tx' = (''beforeCreate'', grants tx) # savepoints tx))"
proof -
  have st: "status tx = InTransaction \<or> status tx = NoTransaction"
    using assms(5) by (cases "status tx") simp_all
  have dup: "unique_violation (grants tx) (setOrg tx g1)"
    if "DeletedAt (setOrg tx g1) = None"
      and "\<exists>r \<in> set (grants tx). DeletedAt r = None \<and> OrganizationID r = tx_OrganizationID tx \<and>
          Subject r = Subject (setOrg tx g1) \<and> Privilege r = Privilege (setOrg tx g1) \<and>
          Resource r = Resource (setOrg tx g1)"
    using that by (auto simp: unique_violation_def list_ex_iff same_grant_def setOrg_def)
  let ?g = "setOrg tx g1"
  let ?dup = "DeletedAt ?g = None \<and>
      (\<exists>r \<in> set (grants tx). DeletedAt r = None \<and> OrganizationID r = tx_OrganizationID tx \<and>
          Subject r = Subject ?g \<and> Privilege r = Privilege ?g \<and> Resource r = Resource ?g)"
  show ?thesis
  proof (cases "unique_violation (grants tx) ?g")
    case True
    from st show ?thesis
    proof
      assume s: "status tx = InTransaction"
      from CreateGrant_in_block[where OnInsert = OnInsert and grant = grant, OF assms(1-4) s]
        assms(6) True s
      show ?thesis
        by (auto simp: Query_grants_def)
    next
      assume s: "status tx = NoTransaction"
      from CreateGrant_outside_block[where OnInsert = OnInsert and grant = grant, OF assms(1-4) s]
        assms(6) True s
      show ?thesis
        by (auto simp: Query_grants_def)
    qed
  next
    case False
    then have nodup: "\<not> ?dup"
      using dup by blast
    from st show ?thesis
    proof
      assume s: "status tx = InTransaction"
      from CreateGrant_in_block[where OnInsert = OnInsert and grant = grant, OF assms(1-4) s]
        assms(6) False
      have "e = None \<and> g' = ?g \<and>
            tx' = tx\<lparr>seq_update_index := seq_update_index tx + 1,
                      grants := grants tx @ [?g\<lparr>UpdateIndex := seq_update_index tx + 1\<rparr>]\<rparr>"
        by simp
      with nodup False show ?thesis
        by simp
    next
      assume s: "status tx = NoTransaction"
      from CreateGrant_outside_block[where OnInsert = OnInsert and grant = grant, OF assms(1-4) s]
        assms(6) False
      have "e = None \<and> g' = ?g \<and>
            tx' = tx\<lparr>seq_update_index := seq_update_index tx + 1,
                      grants := grants tx @ [?g\<lparr>UpdateIndex := seq_update_index tx + 1\<rparr>]\<rparr>"
        by simp
      with nodup False show ?thesis
        by simp
    qed
  qed
qed

text \<open>
  The theorem on the example database, inside a transaction block of organization 1: the
  grant of \<open>view\<close> on \<open>prod\<close> to user 7 exists and is reported as a duplicate; the
  same grant to user 9 is inserted with the update index 6, the next value of the sequence.
\<close>

theorem CreateGrant_inserts_or_reports_duplicate_witness:
  "fst (CreateGrant ex_OnInsert ex_tx (ex_grant 0 0 ''u:7'' ''view'' ''prod'' 0 None))
     = Some ErrDuplicate
 \<and> grants (fst (snd (CreateGrant ex_OnInsert ex_tx (ex_grant 0 0 ''u:7'' ''view'' ''prod'' 0 None))))
     = grants ex_tx
 \<and> status (fst (snd (CreateGrant ex_OnInsert ex_tx (ex_grant 0 0 ''u:7'' ''view'' ''prod'' 0 None))))
     = InTransaction
 \<and> fst (CreateGrant ex_OnInsert ex_tx (ex_grant 0 0 ''u:9'' ''view'' ''prod'' 0 None)) = None
 \<and> grants (fst (snd (CreateGrant ex_OnInsert ex_tx (ex_grant 0 0 ''u:9'' ''view'' ''prod'' 0 None))))
     = grants ex_tx @ [(ex_grant 99 1 ''u:9'' ''view'' ''prod'' 6 None)\<lparr>CreatedAt := 7, UpdatedAt := 7\<rparr>]"
proof -
  let ?dup = "ex_grant 0 0 ''u:7'' ''view'' ''prod'' 0 None"
  let ?new = "ex_grant 0 0 ''u:9'' ''view'' ''prod'' 0 None"
  have tx: "status ex_tx \<noteq> Aborted" "status ex_tx = InTransaction"
    "seq_update_index ex_tx = 5" "tx_OrganizationID ex_tx = 1"
    by (simp_all add: ex_tx_def)
  have pair: "\<And>x :: data_error option \<times> Txn \<times> Grant. x = (fst x, fst (snd x), snd (snd x))"
    by simp
  note t = CreateGrant_inserts_or_reports_duplicate[where OnInsert = ex_OnInsert and tx = ex_tx,
      OF _ _ _ _ tx(1) pair]
  have d: "fst (CreateGrant ex_OnInsert ex_tx ?dup) = Some ErrDuplicate \<and>
           grants (fst (snd (CreateGrant ex_OnInsert ex_tx ?dup))) = grants ex_tx \<and>
           status (fst (snd (CreateGrant ex_OnInsert ex_tx ?dup))) = InTransaction"
  proof -
    have "DeletedAt (setOrg ex_tx (?dup\<lparr>ID := 99, CreatedAt := 7, UpdatedAt := 7\<rparr>)) = None"
      by (simp add: setOrg_def ex_grant_def)
    moreover have "\<exists>r \<in> set (grants ex_tx). DeletedAt r = None \<and>
          OrganizationID r = tx_OrganizationID ex_tx \<and>
          Subject r = Subject (setOrg ex_tx (?dup\<lparr>ID := 99, CreatedAt := 7, UpdatedAt := 7\<rparr>)) \<and>
          Privilege r = Privilege (setOrg ex_tx (?dup\<lparr>ID := 99, CreatedAt := 7, UpdatedAt := 7\<rparr>)) \<and>
          Resource r = Resource (setOrg ex_tx (?dup\<lparr>ID := 99, CreatedAt := 7, UpdatedAt := 7\<rparr>))"
      by (simp add: setOrg_def ex_grant_def ex_tx_def)
    moreover have "ex_OnInsert ?dup = Inr (?dup\<lparr>ID := 99, CreatedAt := 7, UpdatedAt := 7\<rparr>)"
      by (simp add: ex_OnInsert_def ex_grant_def)
    moreover have "Subject ?dup \<noteq> []" "Privilege ?dup \<noteq> []" "Resource ?dup \<noteq> []"
      by (simp_all add: ex_grant_def)
    ultimately show ?thesis
      using t[of ?dup "?dup\<lparr>ID := 99, CreatedAt := 7, UpdatedAt := 7\<rparr>"] tx(2)
      by simp
  qed
  have n: "fst (CreateGrant ex_OnInsert ex_tx ?new) = None \<and>
           grants (fst (snd (CreateGrant ex_OnInsert ex_tx ?new)))
             = grants ex_tx @ [(ex_grant 99 1 ''u:9'' ''view'' ''prod'' 6 None)\<lparr>CreatedAt := 7, UpdatedAt := 7\<rparr>]"
  proof -
    have "\<not> unique_violation (grants ex_tx)
              (setOrg ex_tx (?new\<lparr>ID := 99, CreatedAt := 7, UpdatedAt := 7\<rparr>))"
      by (simp add: unique_violation_def same_grant_def setOrg_def ex_grant_def ex_tx_def)
    moreover have "ex_OnInsert ?new = Inr (?new\<lparr>ID := 99, CreatedAt := 7, UpdatedAt := 7\<rparr>)"
      by (simp add: ex_OnInsert_def ex_grant_def)
    moreover have "Subject ?new \<noteq> []" "Privilege ?new \<noteq> []" "Resource ?new \<noteq> []"
      by (simp_all add: ex_grant_def)
    ultimately have "fst (CreateGrant ex_OnInsert ex_tx ?new) = None \<and>
           grants (fst (snd (CreateGrant ex_OnInsert ex_tx ?new)))
             = grants ex_tx @ [(setOrg ex_tx (?new\<lparr>ID := 99, CreatedAt := 7, UpdatedAt := 7\<rparr>))
                                 \<lparr>UpdateIndex := seq_update_index ex_tx + 1\<rparr>]"
      using t[of ?new "?new\<lparr>ID := 99, CreatedAt := 7, UpdatedAt := 7\<rparr>"]
      by simp
    then show ?thesis
      by (simp add: tx setOrg_def ex_grant_def)
  qed
  from d n show ?thesis
    by simp
qed

text \<open>
  The sequence stays ahead of the table: when no stored update index exceeds the sequence
  before the call, none does after it, and an inserted grant has an update index greater
  than every grant stored before.
\<close>

lemma CreateGrant_keeps_sequence_ahead:
  assumes "Subject grant \<noteq> []" and "Privilege grant \<noteq> []" and "Resource grant \<noteq> []"
    and "OnInsert grant = Inr g1" and "status tx \<noteq> Aborted"
    and "CreateGrant OnInsert tx grant = (e, tx', g')"
    and "\<forall>r \<in> set (grants tx). UpdateIndex r \<le> seq_update_index tx"
  shows "(\<forall>r \<in> set (grants tx'). UpdateIndex r \<le> seq_update_index tx') \<and>
         (e = None \<longrightarrow>
            (\<exists>new. grants tx' = grants tx @ [new] \<and>
                   (\<forall>r \<in> set (grants tx). UpdateIndex r < UpdateIndex new)))"
proof -
  have st: "status tx = InTransaction \<or> status tx = NoTransaction"
    using assms(5) by (cases "status tx") simp_all
  then show ?thesis
  proof
    assume s: "status tx = InTransaction"
    from CreateGrant_in_block[where OnInsert = OnInsert and grant = grant, OF assms(1-4) s]
      assms(6,7)
    show ?thesis
      by (fastforce split: if_splits)
  next
    assume s: "status tx = NoTransaction"
    from CreateGrant_outside_block[where OnInsert = OnInsert and grant = grant, OF assms(1-4) s]
      assms(6,7)
    show ?thesis
      by (fastforce split: if_splits)
  qed
qed

subsection \<open>Access keys\<close>

lemma split_access_key_dotted:
  assumes "CHR ''.'' \<notin> set kid"
  shows "split_access_key (kid @ CHR ''.'' # secret) = Some (kid, secret)"
proof -
  have nodot: "\<And>c. c \<in> set kid \<Longrightarrow> c \<noteq> CHR ''.''"
    using assms by auto
  have "dropWhile (\<lambda>c. c \<noteq> CHR ''.'') (kid @ CHR ''.'' # secret) = CHR ''.'' # secret"
    using nodot by (subst dropWhile_append2) auto
  moreover have "takeWhile (\<lambda>c. c \<noteq> CHR ''.'') (kid @ CHR ''.'' # secret) = kid"
    using nodot by (subst takeWhile_append2) auto
  ultimately show ?thesis
    by (simp add: split_access_key_def)
qed

lemma CreateAccessKey_table:
  "CreateAccessKey cs tbl k = Inr (pair, tbl') \<Longrightarrow>
   pair = KeyID k @ ''.'' @ Secret k \<and>
   tbl' = tbl @ [k\<lparr>SecretChecksum := cs (Secret k), Secret := []\<rparr>]"
  by (auto simp: CreateAccessKey_def split: if_splits)

lemma lookup_after_create:
  assumes "ak_DeletedAt k = None" and "\<forall>r \<in> set tbl. ak_ID r \<noteq> ak_ID k \<and> KeyID r \<noteq> KeyID k"
  shows "GetAccessKey (tbl @ [k\<lparr>SecretChecksum := c, Secret := []\<rparr>]) (ak_ID k)
           = Inr (k\<lparr>SecretChecksum := c, Secret := []\<rparr>)"
    and "GetAccessKeyByKeyID (tbl @ [k\<lparr>SecretChecksum := c, Secret := []\<rparr>]) (KeyID k)
           = Inr (k\<lparr>SecretChecksum := c, Secret := []\<rparr>)"
proof -
  have "filter (\<lambda>r. ak_DeletedAt r = None \<and> ak_ID r = ak_ID k) tbl = []"
    and "filter (\<lambda>r. ak_DeletedAt r = None \<and> KeyID r = KeyID k) tbl = []"
    using assms(2) by (auto simp: filter_empty_conv)
  then show "GetAccessKey (tbl @ [k\<lparr>SecretChecksum := c, Secret := []\<rparr>]) (ak_ID k)
           = Inr (k\<lparr>SecretChecksum := c, Secret := []\<rparr>)"
    and "GetAccessKeyByKeyID (tbl @ [k\<lparr>SecretChecksum := c, Secret := []\<rparr>]) (KeyID k)
           = Inr (k\<lparr>SecretChecksum := c, Secret := []\<rparr>)"
    using assms(1) by (simp_all add: GetAccessKey_def GetAccessKeyByKeyID_def)
qed

text \<open>
  Claim C7. An access key \<open>k\<close> is stored in a table that has no key with its id or its
  key id. Then the returned wire form is \<^verbatim>\<open>keyID.secret\<close>; fetching the key by its id
  returns it with an empty secret and the checksum of the secret; and validating
  \<^verbatim>\<open>keyID.secret'\<close> at the time \<open>now\<close> succeeds exactly when the checksum of the
  presented secret equals the stored checksum, \<open>now\<close> is before \<open>expires_at\<close> and,
  for a key that has an extension deadline, before that deadline. On failure the error is
  the one of the first condition that fails: invalid secret, expired, deadline exceeded.
\<close>

theorem access_key_stored_and_validated:
  assumes "CreateAccessKey cs tbl k = Inr (pair, tbl')"
    and "ak_DeletedAt k = None"
    and "\<forall>r \<in> set tbl. ak_ID r \<noteq> ak_ID k \<and> KeyID r \<noteq> KeyID k"
    and "CHR ''.'' \<notin> set (KeyID k)"
  shows
   "pair = KeyID k @ ''.'' @ Secret k
  \<and> GetAccessKey tbl' (ak_ID k) = Inr (k\<lparr>SecretChecksum := cs (Secret k), Secret := []\<rparr>)
  \<and> ((\<exists>v. ValidateAccessKey cs tbl' now (KeyID k @ ''.'' @ secret) = Inr v) \<longleftrightarrow>
       cs secret = cs (Secret k) \<and> now < ExpiresAt k \<and>
       (\<forall>d. ExtensionDeadline k = Some d \<longrightarrow> now < d))
  \<and> (cs secret \<noteq> cs (Secret k) \<longrightarrow>
       ValidateAccessKey cs tbl' now (KeyID k @ ''.'' @ secret) = Inl ErrAccessKeyInvalidSecret)
  \<and> (cs secret = cs (Secret k) \<and> \<not> now < ExpiresAt k \<longrightarrow>
       ValidateAccessKey cs tbl' now (KeyID k @ ''.'' @ secret) = Inl ErrAccessKeyExpired)
  \<and> (cs secret = cs (Secret k) \<and> now < ExpiresAt k \<and>
      (\<exists>d. ExtensionDeadline k = Some d \<and> \<not> now < d) \<longrightarrow>
       ValidateAccessKey cs tbl' now (KeyID k @ ''.'' @ secret)
         = Inl ErrAccessKeyDeadlineExceeded)"
proof -
  let ?stored = "k\<lparr>SecretChecksum := cs (Secret k), Secret := []\<rparr>"
  from CreateAccessKey_table[OF assms(1)]
  have pair: "pair = KeyID k @ ''.'' @ Secret k" and tbl': "tbl' = tbl @ [?stored]"
    by simp_all
  note look = lookup_after_create[OF assms(2,3), of "cs (Secret k)"]
  have v: "ValidateAccessKey cs tbl' now (KeyID k @ ''.'' @ secret) =
     (if cs secret \<noteq> cs (Secret k) then Inl ErrAccessKeyInvalidSecret
      else if \<not> now < ExpiresAt k then Inl ErrAccessKeyExpired
      else if (case ExtensionDeadline k of None \<Rightarrow> False | Some d \<Rightarrow> \<not> now < d)
      then Inl ErrAccessKeyDeadlineExceeded
      else Inr (extend_deadline now ?stored,
                map (\<lambda>r. if ak_ID r = ak_ID k then extend_deadline now ?stored else r) tbl'))"
    by (simp add: ValidateAccessKey_def split_access_key_dotted[OF assms(4)] tbl' look(2))
  show ?thesis
    using pair look(1) v
    by (auto simp: tbl' split: option.splits)
qed

text \<open>
  The theorem for the example key (expiry 1000, extension deadline 500) stored in an empty
  table: fetched without its secret; validated at time 100; refused with another secret,
  at time 2000 (expired) and at time 600 (deadline exceeded).
\<close>

theorem access_key_stored_and_validated_witness:
  "CreateAccessKey ex_checksum [] ex_access_key =
     Inr (''0123456789.012345678901234567890123'',
          [ex_access_key\<lparr>SecretChecksum := ''321098765432109876543210'', Secret := []\<rparr>])
 \<and> GetAccessKey [ex_access_key\<lparr>SecretChecksum := ''321098765432109876543210'', Secret := []\<rparr>] 31
     = Inr (ex_access_key\<lparr>SecretChecksum := ''321098765432109876543210'', Secret := []\<rparr>)
 \<and> ValidateAccessKey ex_checksum
       [ex_access_key\<lparr>SecretChecksum := ''321098765432109876543210'', Secret := []\<rparr>] 100
       ''0123456789.012345678901234567890123''
     = Inr (ex_access_key\<lparr>SecretChecksum := ''321098765432109876543210'', Secret := []\<rparr>,
            [ex_access_key\<lparr>SecretChecksum := ''321098765432109876543210'', Secret := []\<rparr>])
 \<and> ValidateAccessKey ex_checksum
       [ex_access_key\<lparr>SecretChecksum := ''321098765432109876543210'', Secret := []\<rparr>] 100
       ''0123456789.abcdefghijklmnopqrstuvwx''
     = Inl ErrAccessKeyInvalidSecret
 \<and> ValidateAccessKey ex_checksum
       [ex_access_key\<lparr>SecretChecksum := ''321098765432109876543210'', Secret := []\<rparr>] 2000
       ''0123456789.012345678901234567890123''
     = Inl ErrAccessKeyExpired
 \<and> ValidateAccessKey ex_checksum
       [ex_access_key\<lparr>SecretChecksum := ''321098765432109876543210'', Secret := []\<rparr>] 600
       ''0123456789.012345678901234567890123''
     = Inl ErrAccessKeyDeadlineExceeded"
proof -
  let ?stored = "ex_access_key\<lparr>SecretChecksum := ''321098765432109876543210'', Secret := []\<rparr>"
  have create: "CreateAccessKey ex_checksum [] ex_access_key =
     Inr (''0123456789.012345678901234567890123'', [?stored])"
    by (simp add: CreateAccessKey_def ex_access_key_def ex_checksum_def AccessKeyKeyLength_def
        AccessKeySecretLength_def)
  have k: "ak_DeletedAt ex_access_key = None" "\<forall>r \<in> set []. ak_ID r \<noteq> ak_ID ex_access_key \<and>
      KeyID r \<noteq> KeyID ex_access_key" "CHR ''.'' \<notin> set (KeyID ex_access_key)"
    by (simp_all add: ex_access_key_def)
  have fields: "KeyID ex_access_key = ''0123456789''" "ak_ID ex_access_key = 31"
    "Secret ex_access_key = ''012345678901234567890123''" "ExpiresAt ex_access_key = 1000"
    "ExtensionDeadline ex_access_key = Some 500" "Extension ex_access_key = 0"
    by (simp_all add: ex_access_key_def)
  note t = access_key_stored_and_validated[OF create k]
  have get: "GetAccessKey [?stored] 31 = Inr ?stored"
    using t[of 0 "[]"] by (simp add: fields ex_checksum_def)
  have ok: "\<exists>v. ValidateAccessKey ex_checksum [?stored] 100
                   ''0123456789.012345678901234567890123'' = Inr v"
    using t[of 100 "''012345678901234567890123''"] by (simp add: fields)
  then have valid: "ValidateAccessKey ex_checksum [?stored] 100
                   ''0123456789.012345678901234567890123'' = Inr (?stored, [?stored])"
    by (simp add: ValidateAccessKey_def split_access_key_def GetAccessKeyByKeyID_def
        extend_deadline_def ex_access_key_def ex_checksum_def)
  have secret: "ValidateAccessKey ex_checksum [?stored] 100
                   ''0123456789.abcdefghijklmnopqrstuvwx'' = Inl ErrAccessKeyInvalidSecret"
    using t[of 100 "''abcdefghijklmnopqrstuvwx''"] by (simp add: fields ex_checksum_def)
  have expired: "ValidateAccessKey ex_checksum [?stored] 2000
                   ''0123456789.012345678901234567890123'' = Inl ErrAccessKeyExpired"
    using t[of 2000 "''012345678901234567890123''"] by (simp add: fields)
  have deadline: "ValidateAccessKey ex_checksum [?stored] 600
                   ''0123456789.012345678901234567890123'' = Inl ErrAccessKeyDeadlineExceeded"
    using t[of 600 "''012345678901234567890123''"] by (simp add: fields)
  from create get valid secret expired deadline show ?thesis
    by (intro conjI)
qed


end
